theory Spec2Isabelle
  imports Main "HOL-Library.Word"
begin

section \<open>Data model\<close>

text \<open>
  The two wrapper families live in two Go packages. Package \<open>null\<close> (file uint8.go) is the
  family that keeps absence apart from zero; package \<open>zero\<close> (file zero/int16.go, holding
  \<open>Int16\<close> and \<open>Uint8\<close>) is the family that treats zero as absent. Every wrapper embeds one
  of the nullable column types of database/sql, a value with a \<open>Valid\<close> flag.
\<close>

type_synonym uint8 = "8 word"
type_synonym int16 = "16 word"

record NullByte =
  Byte :: uint8
  Valid :: bool

record NullInt16 =
  Int16 :: int16
  Valid :: bool

section \<open>Construction and inspection\<close>

subsection \<open>Package null: Uint8\<close>

definition null_NewUint8 :: "uint8 \<Rightarrow> bool \<Rightarrow> NullByte" where
  "null_NewUint8 i valid = \<lparr>Byte = i, Valid = valid\<rparr>"

definition null_Uint8From :: "uint8 \<Rightarrow> NullByte" where
  "null_Uint8From i = null_NewUint8 i True"

text \<open>A pointer argument is an optional value: \<open>None\<close> is the nil pointer.\<close>

definition null_Uint8FromPtr :: "uint8 option \<Rightarrow> NullByte" where
  "null_Uint8FromPtr i =
     (case i of None \<Rightarrow> null_NewUint8 0 False | Some v \<Rightarrow> null_NewUint8 v True)"

definition null_Uint8_ValueOrZero :: "NullByte \<Rightarrow> uint8" where
  "null_Uint8_ValueOrZero i = (if \<not> NullByte.Valid i then 0 else Byte i)"

definition null_Uint8_SetValid :: "NullByte \<Rightarrow> uint8 \<Rightarrow> NullByte" where
  "null_Uint8_SetValid i n = i\<lparr>Byte := n, NullByte.Valid := True\<rparr>"

definition null_Uint8_Ptr :: "NullByte \<Rightarrow> uint8 option" where
  "null_Uint8_Ptr i = (if \<not> NullByte.Valid i then None else Some (Byte i))"

definition null_Uint8_IsZero :: "NullByte \<Rightarrow> bool" where
  "null_Uint8_IsZero i = (\<not> NullByte.Valid i)"

definition null_Uint8_Equal :: "NullByte \<Rightarrow> NullByte \<Rightarrow> bool" where
  "null_Uint8_Equal i other =
     (NullByte.Valid i = NullByte.Valid other \<and> (\<not> NullByte.Valid i \<or> Byte i = Byte other))"

subsection \<open>Package zero: Int16\<close>

definition zero_NewInt16 :: "int16 \<Rightarrow> bool \<Rightarrow> NullInt16" where
  "zero_NewInt16 i valid = \<lparr>Int16 = i, Valid = valid\<rparr>"

definition zero_Int16From :: "int16 \<Rightarrow> NullInt16" where
  "zero_Int16From i = zero_NewInt16 i (i \<noteq> 0)"

definition zero_Int16FromPtr :: "int16 option \<Rightarrow> NullInt16" where
  "zero_Int16FromPtr i =
     (case i of None \<Rightarrow> zero_NewInt16 0 False | Some v \<Rightarrow> zero_NewInt16 v True)"

definition zero_Int16_ValueOrZero :: "NullInt16 \<Rightarrow> int16" where
  "zero_Int16_ValueOrZero i = (if \<not> NullInt16.Valid i then 0 else Int16 i)"

definition zero_Int16_SetValid :: "NullInt16 \<Rightarrow> int16 \<Rightarrow> NullInt16" where
  "zero_Int16_SetValid i n = i\<lparr>Int16 := n, NullInt16.Valid := True\<rparr>"

definition zero_Int16_Ptr :: "NullInt16 \<Rightarrow> int16 option" where
  "zero_Int16_Ptr i = (if \<not> NullInt16.Valid i then None else Some (Int16 i))"

definition zero_Int16_IsZero :: "NullInt16 \<Rightarrow> bool" where
  "zero_Int16_IsZero i = (\<not> NullInt16.Valid i \<or> Int16 i = 0)"

definition zero_Int16_Equal :: "NullInt16 \<Rightarrow> NullInt16 \<Rightarrow> bool" where
  "zero_Int16_Equal i other = (zero_Int16_ValueOrZero i = zero_Int16_ValueOrZero other)"

subsection \<open>Package zero: Uint8\<close>

definition zero_NewUint8 :: "uint8 \<Rightarrow> bool \<Rightarrow> NullByte" where
  "zero_NewUint8 i valid = \<lparr>Byte = i, Valid = valid\<rparr>"

definition zero_Uint8From :: "uint8 \<Rightarrow> NullByte" where
  "zero_Uint8From i = zero_NewUint8 i (i \<noteq> 0)"

definition zero_Uint8FromPtr :: "uint8 option \<Rightarrow> NullByte" where
  "zero_Uint8FromPtr i =
     (case i of None \<Rightarrow> zero_NewUint8 0 False | Some v \<Rightarrow> zero_NewUint8 v True)"

definition zero_Uint8_ValueOrZero :: "NullByte \<Rightarrow> uint8" where
  "zero_Uint8_ValueOrZero i = (if \<not> NullByte.Valid i then 0 else Byte i)"

definition zero_Uint8_SetValid :: "NullByte \<Rightarrow> uint8 \<Rightarrow> NullByte" where
  "zero_Uint8_SetValid i n = i\<lparr>Byte := n, NullByte.Valid := True\<rparr>"

definition zero_Uint8_Ptr :: "NullByte \<Rightarrow> uint8 option" where
  "zero_Uint8_Ptr i = (if \<not> NullByte.Valid i then None else Some (Byte i))"

definition zero_Uint8_IsZero :: "NullByte \<Rightarrow> bool" where
  "zero_Uint8_IsZero i = (\<not> NullByte.Valid i \<or> Byte i = 0)"

definition zero_Uint8_Equal :: "NullByte \<Rightarrow> NullByte \<Rightarrow> bool" where
  "zero_Uint8_Equal i other = (zero_Uint8_ValueOrZero i = zero_Uint8_ValueOrZero other)"

section \<open>The strconv functions the wrappers call\<close>

text \<open>
  The wrappers format and parse integers with Go's strconv package, always in base 10.
  Strings are byte sequences; a byte is a \<open>char\<close>, read as a number with \<open>of_char\<close>.
\<close>

definition isDigit :: "char \<Rightarrow> bool" where
  "isDigit c = (48 \<le> (of_char c :: nat) \<and> (of_char c :: nat) \<le> 57)"

definition digitChar :: "nat \<Rightarrow> char" where
  "digitChar d = char_of (48 + d)"

text \<open>The decimal digits of an unsigned number, most significant first, no padding.\<close>

fun formatBits :: "nat \<Rightarrow> string" where
  "formatBits n = (if n < 10 then [digitChar n] else formatBits (n div 10) @ [digitChar (n mod 10)])"

declare formatBits.simps [simp del]

text \<open>\<open>strconv.FormatInt(i, 10)\<close>: a minus sign for a negative number, then the digits.\<close>

definition strconv_FormatInt :: "int \<Rightarrow> string" where
  "strconv_FormatInt i = (if i < 0 then CHR ''-'' # formatBits (nat (- i)) else formatBits (nat i))"

datatype NumError = ErrSyntax | ErrRange

text \<open>
  The loop of \<open>strconv.ParseUint(s, 10, bitSize)\<close> over the bytes of \<open>s\<close>. The accumulator
  \<open>n\<close> is a uint64, so the arithmetic is written modulo \<open>2 ^ 64\<close>. A byte that is not a
  decimal digit is a syntax error (a letter is read as a digit of value at least 10, which
  base 10 refuses with the same error). The function returns a value together with the
  error, as the Go function does: \<open>maxVal\<close> with a range error, 0 with a syntax error.
\<close>

definition cutoff10 :: nat where
  "cutoff10 = (2 ^ 64 - 1) div 10 + 1"

fun parseUintLoop :: "nat \<Rightarrow> nat \<Rightarrow> string \<Rightarrow> nat \<times> NumError option" where
  "parseUintLoop maxVal n [] = (n, None)"
| "parseUintLoop maxVal n (c # cs) =
     (if \<not> isDigit c then (0, Some ErrSyntax)
      else let d = (of_char c :: nat) - 48 in
        if n \<ge> cutoff10 then (maxVal, Some ErrRange)
        else let n' = (n * 10) mod 2 ^ 64; n1 = (n' + d) mod 2 ^ 64 in
          if n1 < n' \<or> n1 > maxVal then (maxVal, Some ErrRange)
          else parseUintLoop maxVal n1 cs)"

text \<open>\<open>bitSize\<close> is 8, 16 or 64 at every call of this repository.\<close>

definition strconv_ParseUint :: "string \<Rightarrow> nat \<Rightarrow> nat \<times> NumError option" where
  "strconv_ParseUint s bitSize =
     (if s = [] then (0, Some ErrSyntax)
      else parseUintLoop (2 ^ bitSize - 1) 0 s)"

text \<open>
  \<open>strconv.ParseInt(s, 10, bitSize)\<close>: an optional sign, then the unsigned parse at the same
  bit size, then the range check against \<open>2 ^ (bitSize - 1)\<close>.
\<close>

definition strconv_ParseInt :: "string \<Rightarrow> nat \<Rightarrow> int \<times> NumError option" where
  "strconv_ParseInt s bitSize =
     (case s of
        [] \<Rightarrow> (0, Some ErrSyntax)
      | c # cs \<Rightarrow>
          let neg = (c = CHR ''-'');
              s' = (if c = CHR ''+'' \<or> c = CHR ''-'' then cs else s);
              (un, err) = strconv_ParseUint s' bitSize
          in if err \<noteq> None \<and> err \<noteq> Some ErrRange then (0, err)
             else let cutoff = (2 :: nat) ^ (bitSize - 1) in
               if \<not> neg \<and> un \<ge> cutoff then (int cutoff - 1, Some ErrRange)
               else if neg \<and> un > cutoff then (- int cutoff, Some ErrRange)
               else (if neg then - int un else int un, None))"

section \<open>The encoding/json functions the wrappers call\<close>

text \<open>
  \<open>UnmarshalJSON\<close> hands the raw bytes to \<open>json.Unmarshal\<close> of the Go standard library
  and inspects the error it returns. \<open>json.Unmarshal\<close> first checks that the whole input is
  one well-formed JSON value (\<open>checkValid\<close>, a byte-by-byte state machine), then decodes
  the value into the target. The model follows the library's scanner state by state.
\<close>

abbreviation (input) quoteByte :: char where
  "quoteByte \<equiv> CHR 0x22"

abbreviation (input) backslashByte :: char where
  "backslashByte \<equiv> CHR 0x5C"

definition isSpace :: "char \<Rightarrow> bool" where
  "isSpace c = (c = CHR '' '' \<or> c = CHR 0x09 \<or> c = CHR 0x0D \<or> c = CHR 0x0A)"

definition isHex :: "char \<Rightarrow> bool" where
  "isHex c = (let n = (of_char c :: nat) in
     (48 \<le> n \<and> n \<le> 57) \<or> (97 \<le> n \<and> n \<le> 102) \<or> (65 \<le> n \<and> n \<le> 70))"

datatype parseStateKind = parseObjectKey | parseObjectValue | parseArrayValue

datatype stepState =
    stateBeginValue | stateBeginValueOrEmpty | stateBeginStringOrEmpty | stateBeginString
  | stateEndValue | stateEndTop
  | stateInString | stateInStringEsc
  | stateInStringEscU | stateInStringEscU1 | stateInStringEscU12 | stateInStringEscU123
  | stateNeg | state1 | state0 | stateDot | stateDot0 | stateE | stateESign | stateE0
  | stateT | stateTr | stateTru
  | stateF | stateFa | stateFal | stateFals
  | stateN | stateNu | stateNul
  | stateError

text \<open>
  The scanner: the current step function, whether the top-level value has ended, the stack
  of enclosing arrays and objects (innermost first), and whether an error was recorded.
\<close>

record scanner =
  step :: stepState
  endTop :: bool
  parseState :: "parseStateKind list"
  err :: bool

definition maxNestingDepth :: nat where
  "maxNestingDepth = 10000"

definition scanner_reset :: scanner where
  "scanner_reset = \<lparr>step = stateBeginValue, endTop = False, parseState = [], err = False\<rparr>"

definition scanner_error :: "scanner \<Rightarrow> scanner" where
  "scanner_error s = s\<lparr>step := stateError, err := True\<rparr>"

definition pushParseState :: "scanner \<Rightarrow> parseStateKind \<Rightarrow> scanner" where
  "pushParseState s newParseState =
     (let s' = s\<lparr>parseState := newParseState # parseState s\<rparr>
      in if length (parseState s') \<le> maxNestingDepth then s' else scanner_error s')"

definition popParseState :: "scanner \<Rightarrow> scanner" where
  "popParseState s =
     (let ps = tl (parseState s)
      in if ps = [] then s\<lparr>parseState := ps, step := stateEndTop, endTop := True\<rparr>
         else s\<lparr>parseState := ps, step := stateEndValue\<rparr>)"

definition stepEndTop :: "scanner \<Rightarrow> char \<Rightarrow> scanner" where
  "stepEndTop s c = (if \<not> isSpace c then scanner_error s else s)"

definition stepEndValue :: "scanner \<Rightarrow> char \<Rightarrow> scanner" where
  "stepEndValue s c =
     (case parseState s of
        [] \<Rightarrow> stepEndTop (s\<lparr>step := stateEndTop, endTop := True\<rparr>) c
      | ps # rest \<Rightarrow>
          if isSpace c then s\<lparr>step := stateEndValue\<rparr>
          else (case ps of
              parseObjectKey \<Rightarrow>
                if c = CHR '':'' then s\<lparr>parseState := parseObjectValue # rest, step := stateBeginValue\<rparr>
                else scanner_error s
            | parseObjectValue \<Rightarrow>
                if c = CHR '','' then s\<lparr>parseState := parseObjectKey # rest, step := stateBeginString\<rparr>
                else if c = CHR ''}'' then popParseState s
                else scanner_error s
            | parseArrayValue \<Rightarrow>
                if c = CHR '','' then s\<lparr>step := stateBeginValue\<rparr>
                else if c = CHR '']'' then popParseState s
                else scanner_error s))"

definition stepBeginValue :: "scanner \<Rightarrow> char \<Rightarrow> scanner" where
  "stepBeginValue s c =
     (if isSpace c then s
      else if c = CHR ''{'' then pushParseState (s\<lparr>step := stateBeginStringOrEmpty\<rparr>) parseObjectKey
      else if c = CHR ''['' then pushParseState (s\<lparr>step := stateBeginValueOrEmpty\<rparr>) parseArrayValue
      else if c = quoteByte then s\<lparr>step := stateInString\<rparr>
      else if c = CHR ''-'' then s\<lparr>step := stateNeg\<rparr>
      else if c = CHR ''0'' then s\<lparr>step := state0\<rparr>
      else if c = CHR ''t'' then s\<lparr>step := stateT\<rparr>
      else if c = CHR ''f'' then s\<lparr>step := stateF\<rparr>
      else if c = CHR ''n'' then s\<lparr>step := stateN\<rparr>
      else if 49 \<le> (of_char c :: nat) \<and> (of_char c :: nat) \<le> 57 then s\<lparr>step := state1\<rparr>
      else scanner_error s)"

definition stepBeginValueOrEmpty :: "scanner \<Rightarrow> char \<Rightarrow> scanner" where
  "stepBeginValueOrEmpty s c =
     (if isSpace c then s
      else if c = CHR '']'' then stepEndValue s c
      else stepBeginValue s c)"

definition stepBeginString :: "scanner \<Rightarrow> char \<Rightarrow> scanner" where
  "stepBeginString s c =
     (if isSpace c then s
      else if c = quoteByte then s\<lparr>step := stateInString\<rparr>
      else scanner_error s)"

definition stepBeginStringOrEmpty :: "scanner \<Rightarrow> char \<Rightarrow> scanner" where
  "stepBeginStringOrEmpty s c =
     (if isSpace c then s
      else if c = CHR ''}'' then
        stepEndValue (s\<lparr>parseState := parseObjectValue # tl (parseState s)\<rparr>) c
      else stepBeginString s c)"

definition step0 :: "scanner \<Rightarrow> char \<Rightarrow> scanner" where
  "step0 s c =
     (if c = CHR ''.'' then s\<lparr>step := stateDot\<rparr>
      else if c = CHR ''e'' \<or> c = CHR ''E'' then s\<lparr>step := stateE\<rparr>
      else stepEndValue s c)"

definition stepESign :: "scanner \<Rightarrow> char \<Rightarrow> scanner" where
  "stepESign s c = (if isDigit c then s\<lparr>step := stateE0\<rparr> else scanner_error s)"

text \<open>A literal word (\<open>true\<close>, \<open>false\<close>, \<open>null\<close>) advances one expected byte at a time.\<close>

definition stepExpect :: "scanner \<Rightarrow> char \<Rightarrow> char \<Rightarrow> stepState \<Rightarrow> scanner" where
  "stepExpect s c expected next = (if c = expected then s\<lparr>step := next\<rparr> else scanner_error s)"

definition stepHex :: "scanner \<Rightarrow> char \<Rightarrow> stepState \<Rightarrow> scanner" where
  "stepHex s c next = (if isHex c then s\<lparr>step := next\<rparr> else scanner_error s)"

definition scanStep :: "scanner \<Rightarrow> char \<Rightarrow> scanner" where
  "scanStep s c =
     (case step s of
        stateBeginValue \<Rightarrow> stepBeginValue s c
      | stateBeginValueOrEmpty \<Rightarrow> stepBeginValueOrEmpty s c
      | stateBeginStringOrEmpty \<Rightarrow> stepBeginStringOrEmpty s c
      | stateBeginString \<Rightarrow> stepBeginString s c
      | stateEndValue \<Rightarrow> stepEndValue s c
      | stateEndTop \<Rightarrow> stepEndTop s c
      | stateInString \<Rightarrow>
          if c = quoteByte then s\<lparr>step := stateEndValue\<rparr>
          else if c = backslashByte then s\<lparr>step := stateInStringEsc\<rparr>
          else if (of_char c :: nat) < 32 then scanner_error s
          else s
      | stateInStringEsc \<Rightarrow>
          if c = CHR ''b'' \<or> c = CHR ''f'' \<or> c = CHR ''n'' \<or> c = CHR ''r'' \<or> c = CHR ''t''
             \<or> c = backslashByte \<or> c = CHR ''/'' \<or> c = quoteByte
          then s\<lparr>step := stateInString\<rparr>
          else if c = CHR ''u'' then s\<lparr>step := stateInStringEscU\<rparr>
          else scanner_error s
      | stateInStringEscU \<Rightarrow> stepHex s c stateInStringEscU1
      | stateInStringEscU1 \<Rightarrow> stepHex s c stateInStringEscU12
      | stateInStringEscU12 \<Rightarrow> stepHex s c stateInStringEscU123
      | stateInStringEscU123 \<Rightarrow> stepHex s c stateInString
      | stateNeg \<Rightarrow>
          if c = CHR ''0'' then s\<lparr>step := state0\<rparr>
          else if 49 \<le> (of_char c :: nat) \<and> (of_char c :: nat) \<le> 57 then s\<lparr>step := state1\<rparr>
          else scanner_error s
      | state1 \<Rightarrow> if isDigit c then s\<lparr>step := state1\<rparr> else step0 s c
      | state0 \<Rightarrow> step0 s c
      | stateDot \<Rightarrow> if isDigit c then s\<lparr>step := stateDot0\<rparr> else scanner_error s
      | stateDot0 \<Rightarrow>
          if isDigit c then s
          else if c = CHR ''e'' \<or> c = CHR ''E'' then s\<lparr>step := stateE\<rparr>
          else stepEndValue s c
      | stateE \<Rightarrow>
          if c = CHR ''+'' \<or> c = CHR ''-'' then s\<lparr>step := stateESign\<rparr> else stepESign s c
      | stateESign \<Rightarrow> stepESign s c
      | stateE0 \<Rightarrow> if isDigit c then s else stepEndValue s c
      | stateT \<Rightarrow> stepExpect s c (CHR ''r'') stateTr
      | stateTr \<Rightarrow> stepExpect s c (CHR ''u'') stateTru
      | stateTru \<Rightarrow> stepExpect s c (CHR ''e'') stateEndValue
      | stateF \<Rightarrow> stepExpect s c (CHR ''a'') stateFa
      | stateFa \<Rightarrow> stepExpect s c (CHR ''l'') stateFal
      | stateFal \<Rightarrow> stepExpect s c (CHR ''s'') stateFals
      | stateFals \<Rightarrow> stepExpect s c (CHR ''e'') stateEndValue
      | stateN \<Rightarrow> stepExpect s c (CHR ''u'') stateNu
      | stateNu \<Rightarrow> stepExpect s c (CHR ''l'') stateNul
      | stateNul \<Rightarrow> stepExpect s c (CHR ''l'') stateEndValue
      | stateError \<Rightarrow> s)"

text \<open>
  \<open>checkValid\<close> feeds the bytes to the scanner and stops at the first error; at the end of
  the input \<open>eof\<close> accepts if the top-level value has ended, if need be after one more
  step on a space. The result is \<open>True\<close> when the library returns no error.
\<close>

fun scanBytes :: "scanner \<Rightarrow> string \<Rightarrow> scanner" where
  "scanBytes s [] = s"
| "scanBytes s (c # cs) = (let s' = scanStep s c in if err s' then s' else scanBytes s' cs)"

definition scanner_eof :: "scanner \<Rightarrow> bool" where
  "scanner_eof s =
     (if err s then False
      else if endTop s then True
      else endTop (scanStep s (CHR '' '')))"

definition checkValid :: "string \<Rightarrow> bool" where
  "checkValid data = scanner_eof (scanBytes scanner_reset data)"

subsection \<open>Unquoting a string literal\<close>

text \<open>
  A rune is a Unicode code point, a natural number here. \<open>utf8_DecodeRune\<close> reads the
  first rune of a byte sequence and returns it with the number of bytes it took; a byte
  that starts no well-formed encoding is \<open>RuneError\<close> of width 1.
\<close>

definition RuneError :: nat where
  "RuneError = 0xFFFD"

definition isContinuation :: "nat \<Rightarrow> bool" where
  "isContinuation b = (0x80 \<le> b \<and> b \<le> 0xBF)"

text \<open>For a leading byte: the length of its encoding and the range allowed for the second byte.\<close>

definition utf8_first :: "nat \<Rightarrow> (nat \<times> nat \<times> nat) option" where
  "utf8_first p0 =
     (if 0xC2 \<le> p0 \<and> p0 \<le> 0xDF then Some (2, 0x80, 0xBF)
      else if p0 = 0xE0 then Some (3, 0xA0, 0xBF)
      else if 0xE1 \<le> p0 \<and> p0 \<le> 0xEC then Some (3, 0x80, 0xBF)
      else if p0 = 0xED then Some (3, 0x80, 0x9F)
      else if 0xEE \<le> p0 \<and> p0 \<le> 0xEF then Some (3, 0x80, 0xBF)
      else if p0 = 0xF0 then Some (4, 0x90, 0xBF)
      else if 0xF1 \<le> p0 \<and> p0 \<le> 0xF3 then Some (4, 0x80, 0xBF)
      else if p0 = 0xF4 then Some (4, 0x80, 0x8F)
      else None)"

definition utf8_DecodeRune :: "string \<Rightarrow> nat \<times> nat" where
  "utf8_DecodeRune p =
     (case map of_char p of
        [] \<Rightarrow> (RuneError, 0)
      | p0 # ps \<Rightarrow>
          if p0 < 0x80 then (p0, 1)
          else (case utf8_first p0 of
              None \<Rightarrow> (RuneError, 1)
            | Some (sz, lo, hi) \<Rightarrow>
                if length p < sz then (RuneError, 1)
                else let b1 = ps ! 0 in
                  if b1 < lo \<or> hi < b1 then (RuneError, 1)
                  else if sz \<le> 2 then ((p0 mod 32) * 64 + b1 mod 64, 2)
                  else let b2 = ps ! 1 in
                    if \<not> isContinuation b2 then (RuneError, 1)
                    else if sz \<le> 3 then ((p0 mod 16) * 4096 + (b1 mod 64) * 64 + b2 mod 64, 3)
                    else let b3 = ps ! 2 in
                      if \<not> isContinuation b3 then (RuneError, 1)
                      else ((p0 mod 8) * 262144 + (b1 mod 64) * 4096 + (b2 mod 64) * 64 + b3 mod 64, 4)))"

definition utf8_EncodeRune :: "nat \<Rightarrow> string" where
  "utf8_EncodeRune r =
     (if r \<le> 0x7F then [char_of r]
      else if r \<le> 0x7FF then [char_of (0xC0 + r div 64), char_of (0x80 + r mod 64)]
      else let r' = (if r > 0x10FFFF \<or> (0xD800 \<le> r \<and> r \<le> 0xDFFF) then RuneError else r) in
        if r' \<le> 0xFFFF
        then [char_of (0xE0 + r' div 4096), char_of (0x80 + (r' div 64) mod 64), char_of (0x80 + r' mod 64)]
        else [char_of (0xF0 + r' div 262144), char_of (0x80 + (r' div 4096) mod 64),
              char_of (0x80 + (r' div 64) mod 64), char_of (0x80 + r' mod 64)])"

definition utf16_IsSurrogate :: "nat \<Rightarrow> bool" where
  "utf16_IsSurrogate r = (0xD800 \<le> r \<and> r < 0xE000)"

text \<open>The second argument is optional: the library passes -1 when no escape follows.\<close>

definition utf16_DecodeRune :: "nat \<Rightarrow> nat option \<Rightarrow> nat" where
  "utf16_DecodeRune r1 r2opt =
     (case r2opt of
        None \<Rightarrow> RuneError
      | Some r2 \<Rightarrow>
          if 0xD800 \<le> r1 \<and> r1 < 0xDC00 \<and> 0xDC00 \<le> r2 \<and> r2 < 0xE000
          then (r1 - 0xD800) * 1024 + (r2 - 0xDC00) + 0x10000
          else RuneError)"

definition hexVal :: "char \<Rightarrow> nat option" where
  "hexVal c = (let n = (of_char c :: nat) in
     if 48 \<le> n \<and> n \<le> 57 then Some (n - 48)
     else if 97 \<le> n \<and> n \<le> 102 then Some (n - 97 + 10)
     else if 65 \<le> n \<and> n \<le> 70 then Some (n - 65 + 10)
     else None)"

fun hexFold :: "nat \<Rightarrow> string \<Rightarrow> nat option" where
  "hexFold r [] = Some r"
| "hexFold r (c # cs) = (case hexVal c of None \<Rightarrow> None | Some d \<Rightarrow> hexFold (r * 16 + d) cs)"

text \<open>\<open>getu4\<close> reads a \<open>\u\<close> escape with its four hexadecimal digits; \<open>None\<close> is the library's -1.\<close>

definition getu4 :: "string \<Rightarrow> nat option" where
  "getu4 s =
     (if length s < 6 \<or> s ! 0 \<noteq> backslashByte \<or> s ! 1 \<noteq> CHR ''u'' then None
      else hexFold 0 (take 4 (drop 2 s)))"

text \<open>
  The loop of \<open>unquoteBytes\<close> over the text between the quotes; \<open>None\<close> is the library's
  \<open>ok = false\<close>. (The library first looks for a byte that needs work and returns the text
  unchanged when there is none; this loop returns the same text in that case.)
\<close>

fun unquoteLoop :: "string \<Rightarrow> string option" where
  "unquoteLoop [] = Some []"
| "unquoteLoop (c # s) =
     (if c = backslashByte then
        (case s of
           [] \<Rightarrow> None
         | e # s' \<Rightarrow>
             if e = quoteByte \<or> e = backslashByte \<or> e = CHR ''/'' \<or> e = CHR 0x27
               then map_option ((#) e) (unquoteLoop s')
             else if e = CHR ''b'' then map_option ((#) (CHR 0x08)) (unquoteLoop s')
             else if e = CHR ''f'' then map_option ((#) (CHR 0x0C)) (unquoteLoop s')
             else if e = CHR ''n'' then map_option ((#) (CHR 0x0A)) (unquoteLoop s')
             else if e = CHR ''r'' then map_option ((#) (CHR 0x0D)) (unquoteLoop s')
             else if e = CHR ''t'' then map_option ((#) (CHR 0x09)) (unquoteLoop s')
             else if e = CHR ''u'' then
               (case getu4 (c # s) of
                  None \<Rightarrow> None
                | Some rr \<Rightarrow>
                    if utf16_IsSurrogate rr then
                      (let dec = utf16_DecodeRune rr (getu4 (drop 4 s')) in
                       if dec \<noteq> RuneError
                       then map_option ((@) (utf8_EncodeRune dec)) (unquoteLoop (drop 6 (drop 4 s')))
                       else map_option ((@) (utf8_EncodeRune RuneError)) (unquoteLoop (drop 4 s')))
                    else map_option ((@) (utf8_EncodeRune rr)) (unquoteLoop (drop 4 s')))
             else None)
      else if c = quoteByte \<or> (of_char c :: nat) < 32 then None
      else if (of_char c :: nat) < 128 then map_option ((#) c) (unquoteLoop s)
      else (case utf8_DecodeRune (c # s) of
              (rr, sz) \<Rightarrow> map_option ((@) (utf8_EncodeRune rr)) (unquoteLoop (drop (sz - 1) s))))"

declare unquoteLoop.simps [simp del]

definition unquoteBytes :: "string \<Rightarrow> string option" where
  "unquoteBytes s =
     (if length s < 2 \<or> hd s \<noteq> quoteByte \<or> last s \<noteq> quoteByte then None
      else unquoteLoop (butlast (tl s)))"

subsection \<open>Decoding one value into a scalar target\<close>

text \<open>
  The errors of \<open>json.Unmarshal\<close> that the wrappers can see: a syntax error of the input,
  or an \<open>UnmarshalTypeError\<close> whose \<open>Value\<close> field describes the JSON value that did not
  fit the target. \<open>PhasePanic\<close> stands for the library's internal panic on a literal that
  the scanner accepted and the decoder cannot read; no input reaches it.
\<close>

datatype json_error = SyntaxError | UnmarshalTypeError string | PhasePanic

definition isNumberByte :: "char \<Rightarrow> bool" where
  "isNumberByte c =
     (isDigit c \<or> c = CHR ''.'' \<or> c = CHR ''e'' \<or> c = CHR ''E'' \<or> c = CHR ''+'' \<or> c = CHR ''-'')"

text \<open>The rest of a string literal after its opening quote, up to and with the closing quote.\<close>

fun rescanString :: "string \<Rightarrow> string" where
  "rescanString [] = []"
| "rescanString [c] = [c]"
| "rescanString (c # d # cs) =
     (if c = backslashByte then c # d # rescanString cs
      else if c = quoteByte then [c]
      else c # rescanString (d # cs))"

text \<open>\<open>rescanLiteral\<close>: the bytes of the literal that starts at the head of the input.\<close>

definition rescanLiteral :: "string \<Rightarrow> string" where
  "rescanLiteral data =
     (case data of
        [] \<Rightarrow> []
      | c # rest \<Rightarrow>
          if c = quoteByte then c # rescanString rest
          else if isDigit c \<or> c = CHR ''-'' then c # takeWhile isNumberByte rest
          else if c = CHR ''t'' then take 4 data
          else if c = CHR ''f'' then take 5 data
          else if c = CHR ''n'' then take 4 data
          else [c])"

text \<open>
  \<open>literalStore\<close> for the three targets the wrappers decode into. Each takes the literal
  and the target's current content and returns the error, if any, with the new content.
  A \<open>null\<close> literal leaves a scalar target as it is and is no error.
\<close>

definition literalStore_uint8 :: "string \<Rightarrow> uint8 \<Rightarrow> json_error option \<times> uint8" where
  "literalStore_uint8 item v =
     (case item of
        [] \<Rightarrow> (Some PhasePanic, v)
      | c # _ \<Rightarrow>
          if c = CHR ''n'' then (None, v)
          else if c = CHR ''t'' \<or> c = CHR ''f'' then (Some (UnmarshalTypeError ''bool''), v)
          else if c = quoteByte then (Some (UnmarshalTypeError ''string''), v)
          else if c \<noteq> CHR ''-'' \<and> \<not> isDigit c then (Some PhasePanic, v)
          else (case strconv_ParseUint item 64 of
              (n, None) \<Rightarrow>
                if n \<ge> 2 ^ 8 then (Some (UnmarshalTypeError (''number '' @ item)), v)
                else (None, of_nat n)
            | (n, Some e) \<Rightarrow> (Some (UnmarshalTypeError (''number '' @ item)), v)))"

definition literalStore_int16 :: "string \<Rightarrow> int16 \<Rightarrow> json_error option \<times> int16" where
  "literalStore_int16 item v =
     (case item of
        [] \<Rightarrow> (Some PhasePanic, v)
      | c # _ \<Rightarrow>
          if c = CHR ''n'' then (None, v)
          else if c = CHR ''t'' \<or> c = CHR ''f'' then (Some (UnmarshalTypeError ''bool''), v)
          else if c = quoteByte then (Some (UnmarshalTypeError ''string''), v)
          else if c \<noteq> CHR ''-'' \<and> \<not> isDigit c then (Some PhasePanic, v)
          else (case strconv_ParseInt item 64 of
              (n, None) \<Rightarrow>
                if n < - (2 ^ 15) \<or> n \<ge> 2 ^ 15 then (Some (UnmarshalTypeError (''number '' @ item)), v)
                else (None, of_int n)
            | (n, Some e) \<Rightarrow> (Some (UnmarshalTypeError (''number '' @ item)), v)))"

definition literalStore_string :: "string \<Rightarrow> string \<Rightarrow> json_error option \<times> string" where
  "literalStore_string item v =
     (case item of
        [] \<Rightarrow> (Some PhasePanic, v)
      | c # _ \<Rightarrow>
          if c = CHR ''n'' then (None, v)
          else if c = CHR ''t'' \<or> c = CHR ''f'' then (Some (UnmarshalTypeError ''bool''), v)
          else if c = quoteByte then
            (case unquoteBytes item of None \<Rightarrow> (Some PhasePanic, v) | Some t \<Rightarrow> (None, t))
          else if c \<noteq> CHR ''-'' \<and> \<not> isDigit c then (Some PhasePanic, v)
          else (Some (UnmarshalTypeError ''number''), v))"

text \<open>
  \<open>json.Unmarshal(data, &target)\<close> for a scalar target: refuse ill-formed input, skip the
  leading white space, refuse an object or an array, store a literal.
\<close>

definition json_Unmarshal ::
    "(string \<Rightarrow> 'a \<Rightarrow> json_error option \<times> 'a) \<Rightarrow> string \<Rightarrow> 'a \<Rightarrow> json_error option \<times> 'a" where
  "json_Unmarshal literalStore data v =
     (if \<not> checkValid data then (Some SyntaxError, v)
      else (case dropWhile isSpace data of
          [] \<Rightarrow> (Some PhasePanic, v)
        | c # rest \<Rightarrow>
            if c = CHR ''['' then (Some (UnmarshalTypeError ''array''), v)
            else if c = CHR ''{'' then (Some (UnmarshalTypeError ''object''), v)
            else literalStore (rescanLiteral (c # rest)) v))"

section \<open>Encoding and decoding the wrappers\<close>

text \<open>
  The errors the decoders return, one constructor for each message of the source, with
  the wrapped error: "JSON input is invalid type (need int or string)", "couldn't
  unmarshal number string", "couldn't convert string to int", "couldn't unmarshal JSON"
  and "couldn't unmarshal text".
\<close>

datatype error =
    ErrInvalidType json_error
  | ErrNumberString json_error
  | ErrConvertString NumError
  | ErrUnmarshalJSON json_error
  | ErrUnmarshalText NumError

text \<open>
  Modelled from the spec: the package variable \<open>nullBytes\<close>, which both packages compare
  the input with, is declared in a file that is not among the sources. The spec calls it
  the null token, the structured-text literal denoting absence; in JSON that literal is
  the four bytes \<open>null\<close>.
\<close>

definition nullBytes :: string where
  "nullBytes = ''null''"

text \<open>
  A decoder has a pointer receiver: it takes the wrapper's state and returns the error
  (\<open>None\<close> for nil) together with the state it leaves behind. An encoder returns its bytes
  and an error, which is always nil in the source.
\<close>

subsection \<open>Package null: Uint8\<close>

definition null_Uint8_UnmarshalJSON :: "NullByte \<Rightarrow> string \<Rightarrow> error option \<times> NullByte" where
  "null_Uint8_UnmarshalJSON i data =
     (if data = nullBytes then (None, i\<lparr>NullByte.Valid := False\<rparr>)
      else (case json_Unmarshal literalStore_uint8 data (Byte i) of
          (Some e, b) \<Rightarrow>
            (case e of
               UnmarshalTypeError v \<Rightarrow>
                 if v \<noteq> ''string'' then (Some (ErrInvalidType e), i\<lparr>Byte := b\<rparr>)
                 else (case json_Unmarshal literalStore_string data [] of
                     (Some e2, str) \<Rightarrow> (Some (ErrNumberString e2), i\<lparr>Byte := b\<rparr>)
                   | (None, str) \<Rightarrow>
                       (case strconv_ParseUint str 8 of
                          (n, Some e3) \<Rightarrow> (Some (ErrConvertString e3), i\<lparr>Byte := b\<rparr>)
                        | (n, None) \<Rightarrow> (None, i\<lparr>Byte := of_nat n, NullByte.Valid := True\<rparr>)))
             | _ \<Rightarrow> (Some (ErrUnmarshalJSON e), i\<lparr>Byte := b\<rparr>))
        | (None, b) \<Rightarrow> (None, i\<lparr>Byte := b, NullByte.Valid := True\<rparr>)))"

definition null_Uint8_UnmarshalText :: "NullByte \<Rightarrow> string \<Rightarrow> error option \<times> NullByte" where
  "null_Uint8_UnmarshalText i text =
     (let str = text in
      if str = [] \<or> str = ''null'' then (None, i\<lparr>NullByte.Valid := False\<rparr>)
      else (case strconv_ParseUint text 8 of
          (n, Some e) \<Rightarrow> (Some (ErrUnmarshalText e), i)
        | (n, None) \<Rightarrow> (None, i\<lparr>Byte := of_nat n, NullByte.Valid := True\<rparr>)))"

definition null_Uint8_MarshalJSON :: "NullByte \<Rightarrow> string \<times> error option" where
  "null_Uint8_MarshalJSON i =
     (if \<not> NullByte.Valid i then (''null'', None)
      else (strconv_FormatInt (uint (Byte i)), None))"

definition null_Uint8_MarshalText :: "NullByte \<Rightarrow> string \<times> error option" where
  "null_Uint8_MarshalText i =
     (if \<not> NullByte.Valid i then ([], None)
      else (strconv_FormatInt (uint (Byte i)), None))"

subsection \<open>Package zero: Int16\<close>

definition zero_Int16_UnmarshalJSON :: "NullInt16 \<Rightarrow> string \<Rightarrow> error option \<times> NullInt16" where
  "zero_Int16_UnmarshalJSON i data =
     (if data = nullBytes then (None, i\<lparr>NullInt16.Valid := False\<rparr>)
      else (case json_Unmarshal literalStore_int16 data (Int16 i) of
          (Some e, b) \<Rightarrow>
            (case e of
               UnmarshalTypeError v \<Rightarrow>
                 if v \<noteq> ''string'' then (Some (ErrInvalidType e), i\<lparr>Int16 := b\<rparr>)
                 else (case json_Unmarshal literalStore_string data [] of
                     (Some e2, str) \<Rightarrow> (Some (ErrNumberString e2), i\<lparr>Int16 := b\<rparr>)
                   | (None, str) \<Rightarrow>
                       (case strconv_ParseInt str 16 of
                          (n, Some e3) \<Rightarrow> (Some (ErrConvertString e3), i\<lparr>Int16 := b\<rparr>)
                        | (n, None) \<Rightarrow> (None, i\<lparr>Int16 := of_int n, NullInt16.Valid := (n \<noteq> 0)\<rparr>)))
             | _ \<Rightarrow> (Some (ErrUnmarshalJSON e), i\<lparr>Int16 := b\<rparr>))
        | (None, b) \<Rightarrow> (None, i\<lparr>Int16 := b, NullInt16.Valid := (b \<noteq> 0)\<rparr>)))"

definition zero_Int16_UnmarshalText :: "NullInt16 \<Rightarrow> string \<Rightarrow> error option \<times> NullInt16" where
  "zero_Int16_UnmarshalText i text =
     (let str = text in
      if str = [] \<or> str = ''null'' then (None, i\<lparr>NullInt16.Valid := False\<rparr>)
      else (case strconv_ParseInt text 64 of
          (n, Some e) \<Rightarrow> (Some (ErrUnmarshalText e), i)
        | (n, None) \<Rightarrow>
            (None, i\<lparr>Int16 := of_int n, NullInt16.Valid := ((of_int n :: int16) \<noteq> 0)\<rparr>)))"

definition zero_Int16_MarshalJSON :: "NullInt16 \<Rightarrow> string \<times> error option" where
  "zero_Int16_MarshalJSON i =
     (let n = (if \<not> NullInt16.Valid i then 0 else Int16 i)
      in (strconv_FormatInt (sint n), None))"

definition zero_Int16_MarshalText :: "NullInt16 \<Rightarrow> string \<times> error option" where
  "zero_Int16_MarshalText i =
     (let n = (if \<not> NullInt16.Valid i then 0 else Int16 i)
      in (strconv_FormatInt (sint n), None))"

subsection \<open>Package zero: Uint8\<close>

definition zero_Uint8_UnmarshalJSON :: "NullByte \<Rightarrow> string \<Rightarrow> error option \<times> NullByte" where
  "zero_Uint8_UnmarshalJSON i data =
     (if data = nullBytes then (None, i\<lparr>NullByte.Valid := False\<rparr>)
      else (case json_Unmarshal literalStore_uint8 data (Byte i) of
          (Some e, b) \<Rightarrow>
            (case e of
               UnmarshalTypeError v \<Rightarrow>
                 if v \<noteq> ''string'' then (Some (ErrInvalidType e), i\<lparr>Byte := b\<rparr>)
                 else (case json_Unmarshal literalStore_string data [] of
                     (Some e2, str) \<Rightarrow> (Some (ErrNumberString e2), i\<lparr>Byte := b\<rparr>)
                   | (None, str) \<Rightarrow>
                       (case strconv_ParseUint str 8 of
                          (n, Some e3) \<Rightarrow> (Some (ErrConvertString e3), i\<lparr>Byte := b\<rparr>)
                        | (n, None) \<Rightarrow> (None, i\<lparr>Byte := of_nat n, NullByte.Valid := (n \<noteq> 0)\<rparr>)))
             | _ \<Rightarrow> (Some (ErrUnmarshalJSON e), i\<lparr>Byte := b\<rparr>))
        | (None, b) \<Rightarrow> (None, i\<lparr>Byte := b, NullByte.Valid := (b \<noteq> 0)\<rparr>)))"

definition zero_Uint8_UnmarshalText :: "NullByte \<Rightarrow> string \<Rightarrow> error option \<times> NullByte" where
  "zero_Uint8_UnmarshalText i text =
     (let str = text in
      if str = [] \<or> str = ''null'' then (None, i\<lparr>NullByte.Valid := False\<rparr>)
      else (case strconv_ParseUint text 8 of
          (n, Some e) \<Rightarrow> (Some (ErrUnmarshalText e), i)
        | (n, None) \<Rightarrow>
            (None, i\<lparr>Byte := of_nat n, NullByte.Valid := ((of_nat n :: uint8) \<noteq> 0)\<rparr>)))"

definition zero_Uint8_MarshalJSON :: "NullByte \<Rightarrow> string \<times> error option" where
  "zero_Uint8_MarshalJSON i =
     (let n = (if \<not> NullByte.Valid i then 0 else Byte i)
      in (strconv_FormatInt (uint n), None))"

definition zero_Uint8_MarshalText :: "NullByte \<Rightarrow> string \<times> error option" where
  "zero_Uint8_MarshalText i =
     (let n = (if \<not> NullByte.Valid i then 0 else Byte i)
      in (strconv_FormatInt (uint n), None))"

section \<open>Evaluation lemmas\<close>

lemma digitChar_eval:
  "digitChar 0 = CHR ''0''" "digitChar 1 = CHR ''1''" "digitChar 2 = CHR ''2''"
  "digitChar 3 = CHR ''3''" "digitChar 4 = CHR ''4''" "digitChar 5 = CHR ''5''"
  "digitChar 6 = CHR ''6''" "digitChar 7 = CHR ''7''" "digitChar 8 = CHR ''8''"
  "digitChar 9 = CHR ''9''"
  by code_simp+

lemmas format_defs = strconv_FormatInt_def formatBits.simps digitChar_eval

lemma formatBits_0: "formatBits 0 = ''0''"
  by (simp add: formatBits.simps digitChar_eval)

lemma FormatInt_0: "strconv_FormatInt 0 = ''0''"
  by (simp add: strconv_FormatInt_def formatBits_0)

section \<open>Encoders\<close>

text \<open>
  Claim C1, as the spec states it: an invalid wrapper of the family that keeps absence apart
  from zero (package null) encodes as "0" in both encodings, and an invalid wrapper of the
  zero-as-absent family (package zero) encodes as "null" in JSON and as the empty text. The
  source does the opposite: at \<open>New(0, false)\<close> package null emits "null" and the empty
  text, and package zero emits "0" twice.
\<close>

theorem C1_counterexample:
  "fst (null_Uint8_MarshalJSON (null_NewUint8 0 False)) \<noteq> ''0''
   \<and> fst (null_Uint8_MarshalText (null_NewUint8 0 False)) \<noteq> ''0''
   \<and> fst (zero_Uint8_MarshalJSON (zero_NewUint8 0 False)) \<noteq> ''null''
   \<and> fst (zero_Uint8_MarshalText (zero_NewUint8 0 False)) \<noteq> []
   \<and> fst (zero_Int16_MarshalJSON (zero_NewInt16 0 False)) \<noteq> ''null''
   \<and> fst (zero_Int16_MarshalText (zero_NewInt16 0 False)) \<noteq> []"
  by (simp add: null_Uint8_MarshalJSON_def null_Uint8_MarshalText_def null_NewUint8_def
      zero_Uint8_MarshalJSON_def zero_Uint8_MarshalText_def zero_NewUint8_def
      zero_Int16_MarshalJSON_def zero_Int16_MarshalText_def zero_NewInt16_def FormatInt_0)

text \<open>
  Claim C1, amended: for every stored value \<open>v\<close>, an invalid wrapper of package null
  encodes as "null" in JSON and as the empty text, and an invalid wrapper of package zero
  (\<open>Int16\<close> and \<open>Uint8\<close>) encodes as "0" in both encodings; a valid wrapper of either
  package encodes as the base-10 decimal of the stored value in both encodings. No encoder
  returns an error.
\<close>

theorem C1_marshal_by_family:
  "null_Uint8_MarshalJSON (null_NewUint8 v False) = (''null'', None)
   \<and> null_Uint8_MarshalText (null_NewUint8 v False) = ([], None)
   \<and> zero_Uint8_MarshalJSON (zero_NewUint8 v False) = (''0'', None)
   \<and> zero_Uint8_MarshalText (zero_NewUint8 v False) = (''0'', None)
   \<and> zero_Int16_MarshalJSON (zero_NewInt16 n False) = (''0'', None)
   \<and> zero_Int16_MarshalText (zero_NewInt16 n False) = (''0'', None)
   \<and> null_Uint8_MarshalJSON (null_NewUint8 v True) = (strconv_FormatInt (uint v), None)
   \<and> null_Uint8_MarshalText (null_NewUint8 v True) = (strconv_FormatInt (uint v), None)
   \<and> zero_Uint8_MarshalJSON (zero_NewUint8 v True) = (strconv_FormatInt (uint v), None)
   \<and> zero_Uint8_MarshalText (zero_NewUint8 v True) = (strconv_FormatInt (uint v), None)
   \<and> zero_Int16_MarshalJSON (zero_NewInt16 n True) = (strconv_FormatInt (sint n), None)
   \<and> zero_Int16_MarshalText (zero_NewInt16 n True) = (strconv_FormatInt (sint n), None)"
  by (simp add: null_Uint8_MarshalJSON_def null_Uint8_MarshalText_def null_NewUint8_def
      zero_Uint8_MarshalJSON_def zero_Uint8_MarshalText_def zero_NewUint8_def
      zero_Int16_MarshalJSON_def zero_Int16_MarshalText_def zero_NewInt16_def FormatInt_0)

text \<open>Claim C1, amended, at the stored values 200 and -5.\<close>

theorem C1_marshal_by_family_witness:
  "null_Uint8_MarshalJSON (null_NewUint8 200 False) = (''null'', None)
   \<and> null_Uint8_MarshalText (null_NewUint8 200 False) = ([], None)
   \<and> zero_Uint8_MarshalJSON (zero_NewUint8 200 False) = (''0'', None)
   \<and> zero_Int16_MarshalText (zero_NewInt16 (- 5) False) = (''0'', None)
   \<and> null_Uint8_MarshalJSON (null_NewUint8 200 True) = (''200'', None)
   \<and> zero_Uint8_MarshalText (zero_NewUint8 200 True) = (''200'', None)
   \<and> zero_Int16_MarshalJSON (zero_NewInt16 (- 5) True) = (''-5'', None)"
proof -
  have u: "strconv_FormatInt 200 = ''200''"
    by (simp add: format_defs)
  have s: "strconv_FormatInt (- 5) = ''-5''"
    by (simp add: format_defs)
  show ?thesis
    using C1_marshal_by_family [of 200 "- 5"] by (simp add: u s)
qed

text \<open>
  Claim C9: in package zero, for every state of an \<open>Int16\<close> and of a \<open>Uint8\<close>,
  \<open>MarshalJSON\<close> and \<open>MarshalText\<close> return the same bytes, the decimal of the stored
  value when the wrapper is valid and "0" otherwise, and neither returns an error.
\<close>

theorem C9_zero_marshal_same:
  "zero_Int16_MarshalJSON i = zero_Int16_MarshalText i
   \<and> snd (zero_Int16_MarshalJSON i) = None
   \<and> fst (zero_Int16_MarshalJSON i)
       = (if NullInt16.Valid i then strconv_FormatInt (sint (Int16 i)) else ''0'')
   \<and> zero_Uint8_MarshalJSON b = zero_Uint8_MarshalText b
   \<and> snd (zero_Uint8_MarshalJSON b) = None
   \<and> fst (zero_Uint8_MarshalJSON b)
       = (if NullByte.Valid b then strconv_FormatInt (uint (Byte b)) else ''0'')"
  by (simp add: zero_Int16_MarshalJSON_def zero_Int16_MarshalText_def
      zero_Uint8_MarshalJSON_def zero_Uint8_MarshalText_def FormatInt_0)

text \<open>Claim C9 at a valid \<open>Int16\<close> holding -5 and an invalid \<open>Uint8\<close> holding 9.\<close>

theorem C9_zero_marshal_same_witness:
  "zero_Int16_MarshalJSON \<lparr>Int16 = - 5, Valid = True\<rparr>
     = zero_Int16_MarshalText \<lparr>Int16 = - 5, Valid = True\<rparr>
   \<and> fst (zero_Int16_MarshalJSON \<lparr>Int16 = - 5, Valid = True\<rparr>) = ''-5''
   \<and> zero_Uint8_MarshalJSON \<lparr>Byte = 9, Valid = False\<rparr>
     = zero_Uint8_MarshalText \<lparr>Byte = 9, Valid = False\<rparr>
   \<and> fst (zero_Uint8_MarshalJSON \<lparr>Byte = 9, Valid = False\<rparr>) = ''0''"
proof -
  have s: "strconv_FormatInt (- 5) = ''-5''"
    by (simp add: format_defs)
  show ?thesis
    using C9_zero_marshal_same [of "\<lparr>Int16 = - 5, Valid = True\<rparr>" "\<lparr>Byte = 9, Valid = False\<rparr>"]
    by (auto simp: s)
qed

section \<open>Equality, zero test and construction from a pointer\<close>

text \<open>
  Claim C2, as the spec states it: equality in the family that keeps absence apart from zero
  (package null) compares \<open>ValueOrZero\<close>, so \<open>New(0, true)\<close> equals \<open>New(0, false)\<close>, and
  equality in package zero tells that pair apart. The source does the opposite.
\<close>

theorem C2_counterexample:
  "\<not> null_Uint8_Equal (null_NewUint8 0 True) (null_NewUint8 0 False)
   \<and> null_Uint8_ValueOrZero (null_NewUint8 0 True) = null_Uint8_ValueOrZero (null_NewUint8 0 False)
   \<and> zero_Uint8_Equal (zero_NewUint8 0 True) (zero_NewUint8 0 False)
   \<and> zero_Int16_Equal (zero_NewInt16 0 True) (zero_NewInt16 0 False)"
  by (simp add: null_Uint8_Equal_def null_NewUint8_def null_Uint8_ValueOrZero_def
      zero_Uint8_Equal_def zero_NewUint8_def zero_Uint8_ValueOrZero_def
      zero_Int16_Equal_def zero_NewInt16_def zero_Int16_ValueOrZero_def)

text \<open>
  Claim C2, amended: in package zero (\<open>Int16\<close> and \<open>Uint8\<close>) \<open>a.Equal(b)\<close> holds exactly
  when the \<open>ValueOrZero\<close> results are equal, so \<open>New(0, true).Equal(New(0, false))\<close> is
  true there; in package null \<open>a.Equal(b)\<close> holds exactly when the valid flags are equal
  and, when both are valid, the stored values are equal (which is equality of the \<open>Ptr\<close>
  results), so the same pair is unequal there.
\<close>

theorem C2_equal_by_family:
  "(zero_Uint8_Equal a b \<longleftrightarrow> zero_Uint8_ValueOrZero a = zero_Uint8_ValueOrZero b)
   \<and> (zero_Int16_Equal c d \<longleftrightarrow> zero_Int16_ValueOrZero c = zero_Int16_ValueOrZero d)
   \<and> zero_Uint8_Equal (zero_NewUint8 0 True) (zero_NewUint8 0 False)
   \<and> zero_Int16_Equal (zero_NewInt16 0 True) (zero_NewInt16 0 False)
   \<and> (null_Uint8_Equal a b \<longleftrightarrow>
        NullByte.Valid a = NullByte.Valid b \<and> (NullByte.Valid a \<and> NullByte.Valid b \<longrightarrow> Byte a = Byte b))
   \<and> (null_Uint8_Equal a b \<longleftrightarrow> null_Uint8_Ptr a = null_Uint8_Ptr b)
   \<and> \<not> null_Uint8_Equal (null_NewUint8 0 True) (null_NewUint8 0 False)"
  by (auto simp: null_Uint8_Equal_def null_NewUint8_def null_Uint8_Ptr_def
      zero_Uint8_Equal_def zero_NewUint8_def zero_Uint8_ValueOrZero_def
      zero_Int16_Equal_def zero_NewInt16_def zero_Int16_ValueOrZero_def)

text \<open>
  Claim C2, amended, at concrete pairs: two invalid wrappers with different residues are
  equal in both packages; a valid 3 and an invalid 3 are unequal in both; two valid wrappers
  are equal exactly when the values agree; and a valid 0 equals an invalid 5 in package zero
  only.
\<close>

theorem C2_equal_by_family_witness:
  "zero_Uint8_Equal \<lparr>Byte = 3, Valid = False\<rparr> \<lparr>Byte = 4, Valid = False\<rparr>
   \<and> null_Uint8_Equal \<lparr>Byte = 3, Valid = False\<rparr> \<lparr>Byte = 4, Valid = False\<rparr>
   \<and> \<not> zero_Uint8_Equal \<lparr>Byte = 3, Valid = True\<rparr> \<lparr>Byte = 3, Valid = False\<rparr>
   \<and> \<not> null_Uint8_Equal \<lparr>Byte = 3, Valid = True\<rparr> \<lparr>Byte = 3, Valid = False\<rparr>
   \<and> null_Uint8_Equal \<lparr>Byte = 3, Valid = True\<rparr> \<lparr>Byte = 3, Valid = True\<rparr>
   \<and> \<not> null_Uint8_Equal \<lparr>Byte = 3, Valid = True\<rparr> \<lparr>Byte = 4, Valid = True\<rparr>
   \<and> \<not> zero_Uint8_Equal \<lparr>Byte = 3, Valid = True\<rparr> \<lparr>Byte = 4, Valid = True\<rparr>
   \<and> zero_Int16_Equal \<lparr>Int16 = 0, Valid = True\<rparr> \<lparr>Int16 = 5, Valid = False\<rparr>
   \<and> zero_Uint8_Equal \<lparr>Byte = 0, Valid = True\<rparr> \<lparr>Byte = 5, Valid = False\<rparr>
   \<and> \<not> null_Uint8_Equal \<lparr>Byte = 0, Valid = True\<rparr> \<lparr>Byte = 5, Valid = False\<rparr>"
proof -
  note a = C2_equal_by_family [of "\<lparr>Byte = 3, Valid = False\<rparr>" "\<lparr>Byte = 4, Valid = False\<rparr>"]
  note b = C2_equal_by_family [of "\<lparr>Byte = 3, Valid = True\<rparr>" "\<lparr>Byte = 3, Valid = False\<rparr>"]
  note c = C2_equal_by_family [of "\<lparr>Byte = 3, Valid = True\<rparr>" "\<lparr>Byte = 3, Valid = True\<rparr>"]
  note d = C2_equal_by_family [of "\<lparr>Byte = 3, Valid = True\<rparr>" "\<lparr>Byte = 4, Valid = True\<rparr>"]
  note e = C2_equal_by_family [of "\<lparr>Byte = 0, Valid = True\<rparr>" "\<lparr>Byte = 5, Valid = False\<rparr>"
      "\<lparr>Int16 = 0, Valid = True\<rparr>" "\<lparr>Int16 = 5, Valid = False\<rparr>"]
  show ?thesis
    using a b c d e by (simp add: zero_Uint8_ValueOrZero_def zero_Int16_ValueOrZero_def)
qed

text \<open>
  Claim C3, as the spec states it: \<open>IsZero\<close> of package null is true for the valid wrapper
  \<open>From(0)\<close>, and \<open>IsZero\<close> of package zero is false after \<open>SetValid(w, 0)\<close>. The source
  does the opposite.
\<close>

theorem C3_counterexample:
  "\<not> null_Uint8_IsZero (null_Uint8From 0)
   \<and> zero_Uint8_IsZero (zero_Uint8_SetValid (zero_NewUint8 5 True) 0)
   \<and> zero_Int16_IsZero (zero_Int16_SetValid (zero_NewInt16 5 True) 0)"
  by (simp add: null_Uint8_IsZero_def null_Uint8From_def null_NewUint8_def
      zero_Uint8_IsZero_def zero_Uint8_SetValid_def zero_NewUint8_def
      zero_Int16_IsZero_def zero_Int16_SetValid_def zero_NewInt16_def)

text \<open>
  Claim C3, amended: for every wrapper \<open>w\<close>, \<open>IsZero\<close> of package zero (\<open>Int16\<close> and
  \<open>Uint8\<close>) is true exactly when \<open>w\<close> is invalid or its value is 0, so it is true after
  \<open>SetValid(w, 0)\<close>; \<open>IsZero\<close> of package null is true exactly when \<open>w\<close> is invalid,
  without a look at the value, so it is false for \<open>From(0)\<close>.
\<close>

theorem C3_iszero_by_family:
  "(zero_Uint8_IsZero w \<longleftrightarrow> \<not> NullByte.Valid w \<or> Byte w = 0)
   \<and> (zero_Int16_IsZero x \<longleftrightarrow> \<not> NullInt16.Valid x \<or> Int16 x = 0)
   \<and> zero_Uint8_IsZero (zero_Uint8_SetValid w 0)
   \<and> zero_Int16_IsZero (zero_Int16_SetValid x 0)
   \<and> (null_Uint8_IsZero w \<longleftrightarrow> \<not> NullByte.Valid w)
   \<and> \<not> null_Uint8_IsZero (null_Uint8From v)
   \<and> \<not> null_Uint8_IsZero (null_Uint8_SetValid w v)"
  by (simp add: null_Uint8_IsZero_def null_Uint8From_def null_NewUint8_def null_Uint8_SetValid_def
      zero_Uint8_IsZero_def zero_Uint8_SetValid_def zero_Int16_IsZero_def zero_Int16_SetValid_def)

text \<open>Claim C3, amended, at a valid wrapper holding 0 and at \<open>From(0)\<close>.\<close>

theorem C3_iszero_by_family_witness:
  "zero_Uint8_IsZero \<lparr>Byte = 0, Valid = True\<rparr>
   \<and> zero_Int16_IsZero \<lparr>Int16 = 0, Valid = True\<rparr>
   \<and> \<not> null_Uint8_IsZero \<lparr>Byte = 0, Valid = True\<rparr>
   \<and> \<not> null_Uint8_IsZero (null_Uint8From 0)"
  using C3_iszero_by_family [of "\<lparr>Byte = 0, Valid = True\<rparr>" "\<lparr>Int16 = 0, Valid = True\<rparr>" 0]
  by simp

text \<open>
  Claim C4, as the spec states it: \<open>FromPtr\<close> of package zero applies \<open>From\<close> to the
  pointed-to value, so a pointer to 0 gives an invalid wrapper. In the source a pointer to 0
  gives a valid wrapper, which is not what \<open>From(0)\<close> gives.
\<close>

theorem C4_counterexample:
  "NullByte.Valid (zero_Uint8FromPtr (Some 0))
   \<and> zero_Uint8FromPtr (Some 0) \<noteq> zero_Uint8From 0
   \<and> NullInt16.Valid (zero_Int16FromPtr (Some 0))
   \<and> zero_Int16FromPtr (Some 0) \<noteq> zero_Int16From 0"
  by (simp add: zero_Uint8FromPtr_def zero_Uint8From_def zero_NewUint8_def
      zero_Int16FromPtr_def zero_Int16From_def zero_NewInt16_def)

text \<open>
  Claim C4, amended: for every non-nil pointer \<open>p\<close>, \<open>FromPtr(p)\<close> of package zero
  (\<open>Int16\<close> and \<open>Uint8\<close>) is \<open>New(*p, true)\<close>: the wrapper is valid whatever \<open>*p\<close> is, also
  when \<open>*p\<close> is 0, and it is \<open>From(*p)\<close> exactly when \<open>*p\<close> is not 0. \<open>FromPtr(p)\<close> of
  package null is \<open>New(*p, true)\<close> too, which is its \<open>From(*p)\<close>. For a nil pointer both
  packages produce \<open>New(0, false)\<close>.
\<close>

theorem C4_fromptr_by_family:
  "zero_Uint8FromPtr (Some v) = zero_NewUint8 v True
   \<and> NullByte.Valid (zero_Uint8FromPtr (Some v))
   \<and> (zero_Uint8FromPtr (Some v) = zero_Uint8From v \<longleftrightarrow> v \<noteq> 0)
   \<and> zero_Int16FromPtr (Some n) = zero_NewInt16 n True
   \<and> NullInt16.Valid (zero_Int16FromPtr (Some n))
   \<and> (zero_Int16FromPtr (Some n) = zero_Int16From n \<longleftrightarrow> n \<noteq> 0)
   \<and> null_Uint8FromPtr (Some v) = null_Uint8From v
   \<and> zero_Uint8FromPtr None = zero_NewUint8 0 False
   \<and> zero_Int16FromPtr None = zero_NewInt16 0 False
   \<and> null_Uint8FromPtr None = null_NewUint8 0 False"
  by (simp add: zero_Uint8FromPtr_def zero_Uint8From_def zero_NewUint8_def
      zero_Int16FromPtr_def zero_Int16From_def zero_NewInt16_def
      null_Uint8FromPtr_def null_Uint8From_def null_NewUint8_def)

text \<open>Claim C4, amended, at pointers to 0 and to 7.\<close>

theorem C4_fromptr_by_family_witness:
  "zero_Uint8FromPtr (Some 0) = \<lparr>Byte = 0, Valid = True\<rparr>
   \<and> zero_Uint8FromPtr (Some 0) \<noteq> zero_Uint8From 0
   \<and> zero_Int16FromPtr (Some 7) = zero_Int16From 7"
  using C4_fromptr_by_family [of 0 7]
  by (auto simp: zero_NewUint8_def)

section \<open>Flat-text decoding\<close>

lemma null_Uint8_UnmarshalText_err:
  "fst (null_Uint8_UnmarshalText b text) \<noteq> None \<Longrightarrow> snd (null_Uint8_UnmarshalText b text) = b"
  unfolding null_Uint8_UnmarshalText_def Let_def
  by (cases "strconv_ParseUint text 8") (simp split: if_splits option.splits)

lemma zero_Uint8_UnmarshalText_err:
  "fst (zero_Uint8_UnmarshalText b text) \<noteq> None \<Longrightarrow> snd (zero_Uint8_UnmarshalText b text) = b"
  unfolding zero_Uint8_UnmarshalText_def Let_def
  by (cases "strconv_ParseUint text 8") (simp split: if_splits option.splits)

lemma zero_Int16_UnmarshalText_err:
  "fst (zero_Int16_UnmarshalText i text) \<noteq> None \<Longrightarrow> snd (zero_Int16_UnmarshalText i text) = i"
  unfolding zero_Int16_UnmarshalText_def Let_def
  by (cases "strconv_ParseInt text 64") (simp split: if_splits option.splits)

text \<open>
  Claim C10: for each of the three wrapper types, whenever \<open>UnmarshalText\<close> returns an
  error, the wrapper is left in the state it had before the call.
\<close>

theorem C10_unmarshal_text_error_keeps_state:
  "(fst (null_Uint8_UnmarshalText b text) \<noteq> None \<longrightarrow> snd (null_Uint8_UnmarshalText b text) = b)
   \<and> (fst (zero_Int16_UnmarshalText i text) \<noteq> None \<longrightarrow> snd (zero_Int16_UnmarshalText i text) = i)
   \<and> (fst (zero_Uint8_UnmarshalText b text) \<noteq> None \<longrightarrow> snd (zero_Uint8_UnmarshalText b text) = b)"
  using null_Uint8_UnmarshalText_err zero_Uint8_UnmarshalText_err zero_Int16_UnmarshalText_err
  by blast

text \<open>
  Claim C10 at the text "1x", which none of the three decoders accepts, decoded into a valid
  wrapper holding 7.
\<close>

theorem C10_unmarshal_text_error_keeps_state_witness:
  "fst (null_Uint8_UnmarshalText \<lparr>Byte = 7, Valid = True\<rparr> ''1x'') \<noteq> None
   \<and> snd (null_Uint8_UnmarshalText \<lparr>Byte = 7, Valid = True\<rparr> ''1x'') = \<lparr>Byte = 7, Valid = True\<rparr>
   \<and> fst (zero_Int16_UnmarshalText \<lparr>Int16 = 7, Valid = True\<rparr> ''1x'') \<noteq> None
   \<and> snd (zero_Int16_UnmarshalText \<lparr>Int16 = 7, Valid = True\<rparr> ''1x'') = \<lparr>Int16 = 7, Valid = True\<rparr>
   \<and> fst (zero_Uint8_UnmarshalText \<lparr>Byte = 7, Valid = True\<rparr> ''1x'') \<noteq> None
   \<and> snd (zero_Uint8_UnmarshalText \<lparr>Byte = 7, Valid = True\<rparr> ''1x'') = \<lparr>Byte = 7, Valid = True\<rparr>"
proof -
  have u: "strconv_ParseUint ''1x'' 8 = (0, Some ErrSyntax)"
    by (simp add: strconv_ParseUint_def isDigit_def cutoff10_def)
  have s: "strconv_ParseInt ''1x'' 64 = (0, Some ErrSyntax)"
    by (simp add: strconv_ParseInt_def strconv_ParseUint_def isDigit_def cutoff10_def)
  have e1: "fst (null_Uint8_UnmarshalText \<lparr>Byte = 7, Valid = True\<rparr> ''1x'') \<noteq> None"
    by (simp add: null_Uint8_UnmarshalText_def u)
  have e2: "fst (zero_Int16_UnmarshalText \<lparr>Int16 = 7, Valid = True\<rparr> ''1x'') \<noteq> None"
    by (simp add: zero_Int16_UnmarshalText_def s)
  have e3: "fst (zero_Uint8_UnmarshalText \<lparr>Byte = 7, Valid = True\<rparr> ''1x'') \<noteq> None"
    by (simp add: zero_Uint8_UnmarshalText_def u)
  show ?thesis
    using C10_unmarshal_text_error_keeps_state
      [of "\<lparr>Byte = 7, Valid = True\<rparr>" "''1x''" "\<lparr>Int16 = 7, Valid = True\<rparr>"] e1 e2 e3
    by simp
qed

section \<open>JSON decoding\<close>

lemmas scanner_defs =
  checkValid_def scanner_eof_def scanner_reset_def scanner_error_def scanStep_def
  stepBeginValue_def stepBeginValueOrEmpty_def stepBeginString_def stepBeginStringOrEmpty_def
  stepEndValue_def stepEndTop_def step0_def stepESign_def stepExpect_def stepHex_def
  pushParseState_def popParseState_def maxNestingDepth_def isSpace_def isDigit_def isHex_def

lemmas parse_defs =
  strconv_ParseUint_def strconv_ParseInt_def isDigit_def cutoff10_def

lemma json_Unmarshal_uint8_zero: "json_Unmarshal literalStore_uint8 ''0'' b = (None, 0)"
proof -
  have "checkValid ''0''"
    by (simp add: scanner_defs)
  then show ?thesis
    by (simp add: json_Unmarshal_def rescanLiteral_def literalStore_uint8_def isSpace_def parse_defs)
qed

lemma json_Unmarshal_int16_zero: "json_Unmarshal literalStore_int16 ''0'' n = (None, 0)"
proof -
  have "checkValid ''0''"
    by (simp add: scanner_defs)
  then show ?thesis
    by (simp add: json_Unmarshal_def rescanLiteral_def literalStore_int16_def isSpace_def parse_defs)
qed

text \<open>
  Claim C5: for every value \<open>v\<close> and each of the three wrapper types, the bytes that
  \<open>MarshalJSON\<close> produces for \<open>New(v, false)\<close>, decoded by the same type's
  \<open>UnmarshalJSON\<close> into a wrapper in any state, give no error and leave the wrapper invalid.
\<close>

theorem C5_invalid_json_round_trip:
  "fst (null_Uint8_UnmarshalJSON b (fst (null_Uint8_MarshalJSON (null_NewUint8 v False)))) = None
   \<and> \<not> NullByte.Valid (snd (null_Uint8_UnmarshalJSON b (fst (null_Uint8_MarshalJSON (null_NewUint8 v False)))))
   \<and> fst (zero_Uint8_UnmarshalJSON b (fst (zero_Uint8_MarshalJSON (zero_NewUint8 v False)))) = None
   \<and> \<not> NullByte.Valid (snd (zero_Uint8_UnmarshalJSON b (fst (zero_Uint8_MarshalJSON (zero_NewUint8 v False)))))
   \<and> fst (zero_Int16_UnmarshalJSON i (fst (zero_Int16_MarshalJSON (zero_NewInt16 n False)))) = None
   \<and> \<not> NullInt16.Valid (snd (zero_Int16_UnmarshalJSON i (fst (zero_Int16_MarshalJSON (zero_NewInt16 n False)))))"
proof -
  have m1: "fst (null_Uint8_MarshalJSON (null_NewUint8 v False)) = ''null''"
    by (simp add: null_Uint8_MarshalJSON_def null_NewUint8_def)
  have m2: "fst (zero_Uint8_MarshalJSON (zero_NewUint8 v False)) = ''0''"
    by (simp add: zero_Uint8_MarshalJSON_def zero_NewUint8_def FormatInt_0)
  have m3: "fst (zero_Int16_MarshalJSON (zero_NewInt16 n False)) = ''0''"
    by (simp add: zero_Int16_MarshalJSON_def zero_NewInt16_def FormatInt_0)
  have u1: "null_Uint8_UnmarshalJSON b ''null'' = (None, b\<lparr>NullByte.Valid := False\<rparr>)"
    by (simp add: null_Uint8_UnmarshalJSON_def nullBytes_def)
  have u2: "zero_Uint8_UnmarshalJSON b ''0'' = (None, b\<lparr>Byte := 0, NullByte.Valid := False\<rparr>)"
    by (simp add: zero_Uint8_UnmarshalJSON_def nullBytes_def json_Unmarshal_uint8_zero)
  have u3: "zero_Int16_UnmarshalJSON i ''0'' = (None, i\<lparr>Int16 := 0, NullInt16.Valid := False\<rparr>)"
    by (simp add: zero_Int16_UnmarshalJSON_def nullBytes_def json_Unmarshal_int16_zero)
  show ?thesis
    by (simp add: m1 m2 m3 u1 u2 u3)
qed

text \<open>Claim C5 at the stored values 9 and -3, decoded into valid wrappers holding 7.\<close>

theorem C5_invalid_json_round_trip_witness:
  "fst (null_Uint8_UnmarshalJSON \<lparr>Byte = 7, Valid = True\<rparr>
         (fst (null_Uint8_MarshalJSON (null_NewUint8 9 False)))) = None
   \<and> \<not> NullByte.Valid (snd (null_Uint8_UnmarshalJSON \<lparr>Byte = 7, Valid = True\<rparr>
         (fst (null_Uint8_MarshalJSON (null_NewUint8 9 False)))))
   \<and> fst (zero_Uint8_UnmarshalJSON \<lparr>Byte = 7, Valid = True\<rparr>
         (fst (zero_Uint8_MarshalJSON (zero_NewUint8 9 False)))) = None
   \<and> \<not> NullByte.Valid (snd (zero_Uint8_UnmarshalJSON \<lparr>Byte = 7, Valid = True\<rparr>
         (fst (zero_Uint8_MarshalJSON (zero_NewUint8 9 False)))))
   \<and> fst (zero_Int16_UnmarshalJSON \<lparr>Int16 = 7, Valid = True\<rparr>
         (fst (zero_Int16_MarshalJSON (zero_NewInt16 (- 3) False)))) = None
   \<and> \<not> NullInt16.Valid (snd (zero_Int16_UnmarshalJSON \<lparr>Int16 = 7, Valid = True\<rparr>
         (fst (zero_Int16_MarshalJSON (zero_NewInt16 (- 3) False)))))"
  by (rule C5_invalid_json_round_trip)

lemma checkValid_quoted_42: "checkValid [quoteByte, CHR ''4'', CHR ''2'', quoteByte]"
  by (simp add: scanner_defs)

lemma checkValid_quoted_0: "checkValid [quoteByte, CHR ''0'', quoteByte]"
  by (simp add: scanner_defs)

lemma unquote_42: "unquoteBytes [quoteByte, CHR ''4'', CHR ''2'', quoteByte] = Some ''42''"
  by (simp add: unquoteBytes_def unquoteLoop.simps)

lemma unquote_0: "unquoteBytes [quoteByte, CHR ''0'', quoteByte] = Some ''0''"
  by (simp add: unquoteBytes_def unquoteLoop.simps)

text \<open>
  Claim C6: \<open>UnmarshalJSON\<close> of package zero's \<open>Uint8\<close>, on the four bytes of the quoted
  string "42", returns no error and leaves value 42 with the valid flag set; on the three
  bytes of the quoted string "0" it returns no error and leaves value 0 with the valid flag
  cleared. Both hold whatever state the wrapper had before.
\<close>

theorem C6_zero_uint8_quoted_string:
  "zero_Uint8_UnmarshalJSON b [quoteByte, CHR ''4'', CHR ''2'', quoteByte]
     = (None, b\<lparr>Byte := 42, NullByte.Valid := True\<rparr>)
   \<and> zero_Uint8_UnmarshalJSON b [quoteByte, CHR ''0'', quoteByte]
     = (None, b\<lparr>Byte := 0, NullByte.Valid := False\<rparr>)"
proof -
  have a: "json_Unmarshal literalStore_uint8 [quoteByte, CHR ''4'', CHR ''2'', quoteByte] (Byte b)
             = (Some (UnmarshalTypeError ''string''), Byte b)"
    using checkValid_quoted_42
    by (simp add: json_Unmarshal_def rescanLiteral_def literalStore_uint8_def isSpace_def)
  have a': "json_Unmarshal literalStore_string [quoteByte, CHR ''4'', CHR ''2'', quoteByte] []
             = (None, ''42'')"
    using checkValid_quoted_42 unquote_42
    by (simp add: json_Unmarshal_def rescanLiteral_def literalStore_string_def isSpace_def)
  have a'': "strconv_ParseUint ''42'' 8 = (42, None)"
    by (simp add: parse_defs)
  have z: "json_Unmarshal literalStore_uint8 [quoteByte, CHR ''0'', quoteByte] (Byte b)
             = (Some (UnmarshalTypeError ''string''), Byte b)"
    using checkValid_quoted_0
    by (simp add: json_Unmarshal_def rescanLiteral_def literalStore_uint8_def isSpace_def)
  have z': "json_Unmarshal literalStore_string [quoteByte, CHR ''0'', quoteByte] [] = (None, ''0'')"
    using checkValid_quoted_0 unquote_0
    by (simp add: json_Unmarshal_def rescanLiteral_def literalStore_string_def isSpace_def)
  have z'': "strconv_ParseUint ''0'' 8 = (0, None)"
    by (simp add: parse_defs)
  have r42: "zero_Uint8_UnmarshalJSON b [quoteByte, CHR ''4'', CHR ''2'', quoteByte]
     = (None, b\<lparr>Byte := 42, NullByte.Valid := True\<rparr>)"
    by (simp add: zero_Uint8_UnmarshalJSON_def nullBytes_def a a' a'')
  have r0: "zero_Uint8_UnmarshalJSON b [quoteByte, CHR ''0'', quoteByte]
     = (None, b\<lparr>Byte := 0, NullByte.Valid := False\<rparr>)"
    by (simp add: zero_Uint8_UnmarshalJSON_def nullBytes_def z z' z'')
  show ?thesis
    using r42 r0 by (rule conjI)
qed

text \<open>Claim C6 decoded into a valid wrapper holding 7 and into an invalid one holding 0.\<close>

theorem C6_zero_uint8_quoted_string_witness:
  "zero_Uint8_UnmarshalJSON \<lparr>Byte = 7, Valid = True\<rparr> [quoteByte, CHR ''4'', CHR ''2'', quoteByte]
     = (None, \<lparr>Byte = 42, Valid = True\<rparr>)
   \<and> zero_Uint8_UnmarshalJSON \<lparr>Byte = 7, Valid = True\<rparr> [quoteByte, CHR ''0'', quoteByte]
     = (None, \<lparr>Byte = 0, Valid = False\<rparr>)"
  using C6_zero_uint8_quoted_string [of "\<lparr>Byte = 7, Valid = True\<rparr>"]
  by simp

lemma other_shape_not_null:
  assumes "dropWhile isSpace data = c # rest"
    and "c = CHR ''t'' \<or> c = CHR ''f'' \<or> c = CHR ''['' \<or> c = CHR ''{''"
  shows "data \<noteq> nullBytes"
proof
  assume "data = nullBytes"
  then have "dropWhile isSpace data = ''null''"
    by (simp add: nullBytes_def isSpace_def)
  with assms show False
    by auto
qed

lemma json_Unmarshal_uint8_other_shape:
  assumes "checkValid data" and "dropWhile isSpace data = c # rest"
    and "c = CHR ''t'' \<or> c = CHR ''f'' \<or> c = CHR ''['' \<or> c = CHR ''{''"
  shows "json_Unmarshal literalStore_uint8 data v =
           (Some (UnmarshalTypeError
              (if c = CHR ''['' then ''array'' else if c = CHR ''{'' then ''object'' else ''bool'')), v)"
  using assms
  by (auto simp: json_Unmarshal_def rescanLiteral_def literalStore_uint8_def isDigit_def)

lemma json_Unmarshal_int16_other_shape:
  assumes "checkValid data" and "dropWhile isSpace data = c # rest"
    and "c = CHR ''t'' \<or> c = CHR ''f'' \<or> c = CHR ''['' \<or> c = CHR ''{''"
  shows "json_Unmarshal literalStore_int16 data v =
           (Some (UnmarshalTypeError
              (if c = CHR ''['' then ''array'' else if c = CHR ''{'' then ''object'' else ''bool'')), v)"
  using assms
  by (auto simp: json_Unmarshal_def rescanLiteral_def literalStore_int16_def isDigit_def)

lemma scanStep_reset_space: "isSpace c \<Longrightarrow> scanStep scanner_reset c = scanner_reset"
  by (simp add: scanStep_def stepBeginValue_def scanner_reset_def)

lemma scanBytes_skip_space:
  "scanBytes scanner_reset (dropWhile isSpace data) = scanBytes scanner_reset data"
proof (induction data)
  case Nil
  show ?case by simp
next
  case (Cons c cs)
  show ?case
  proof (cases "isSpace c")
    case True
    have "\<not> err scanner_reset"
      by (simp add: scanner_reset_def)
    with True Cons show ?thesis
      by (simp add: scanStep_reset_space)
  next
    case False
    then show ?thesis by simp
  qed
qed


lemma scanStep_reset_bad:
  assumes "\<not> isSpace c" and "c \<noteq> CHR ''{''" and "c \<noteq> CHR ''[''" and "c \<noteq> quoteByte"
    and "c \<noteq> CHR ''-''" and "\<not> isDigit c" and "c \<noteq> CHR ''t''" and "c \<noteq> CHR ''f''"
    and "c \<noteq> CHR ''n''"
  shows "err (scanStep scanner_reset c)"
proof -
  have z: "c \<noteq> CHR ''0''"
    using assms(6) by (auto simp: isDigit_def)
  have d: "(49 \<le> (of_char c :: nat) \<and> (of_char c :: nat) \<le> 57) = False"
    using assms(6) by (simp add: isDigit_def)
  have "stepBeginValue scanner_reset c = scanner_error scanner_reset"
    unfolding stepBeginValue_def d using assms z by simp
  then show ?thesis
    by (simp add: scanStep_def scanner_reset_def scanner_error_def)
qed

lemma checkValid_first_byte:
  assumes "checkValid data" and "dropWhile isSpace data = c # rest"
  shows "c = CHR ''{'' \<or> c = CHR ''['' \<or> c = CHR ''t'' \<or> c = CHR ''f''
         \<or> c = CHR ''n'' \<or> c = quoteByte \<or> c = CHR ''-'' \<or> isDigit c"
proof (rule ccontr)
  assume n: "\<not> ?thesis"
  have "c \<in> set (dropWhile isSpace data)"
    using assms(2) by simp
  have sp: "\<not> isSpace c"
    using hd_dropWhile [of isSpace data] assms(2) by simp
  have "err (scanStep scanner_reset c)"
    using sp n by (intro scanStep_reset_bad) simp_all
  then have "err (scanBytes scanner_reset (c # rest))"
    by simp
  then have "err (scanBytes scanner_reset data)"
    using scanBytes_skip_space [of data] by (simp only: assms(2))
  then have "\<not> checkValid data"
    by (simp add: checkValid_def scanner_eof_def)
  with assms(1) show False
    by simp
qed

lemma checkValid_not_blank:
  assumes "checkValid data"
  shows "dropWhile isSpace data \<noteq> []"
proof
  assume e: "dropWhile isSpace data = []"
  have "scanBytes scanner_reset data = scanBytes scanner_reset (dropWhile isSpace data)"
    by (rule scanBytes_skip_space [symmetric])
  also have "\<dots> = scanner_reset"
    by (simp only: e scanBytes.simps)
  finally have "checkValid data = scanner_eof scanner_reset"
    by (simp only: checkValid_def)
  moreover have "\<not> scanner_eof scanner_reset"
    by (simp add: scanner_eof_def scanner_reset_def scanStep_def stepBeginValue_def isSpace_def)
  ultimately show False
    using assms by simp
qed

text \<open>
  Claim C8: for each of the three wrapper types, \<open>UnmarshalJSON\<close> of a well-formed JSON
  input whose shape is neither null, a number nor a quoted string (its first byte after the
  leading white space is not \<open>n\<close>, not a quote, not a minus sign and not a digit) returns
  the error "JSON input is invalid type", wrapping the library's type error for a boolean,
  an array or an object, and leaves the wrapper as it was.
\<close>

theorem C8_unmarshal_json_invalid_type:
  assumes "checkValid data" and "dropWhile isSpace data = c # rest"
    and "c \<noteq> CHR ''n''" and "c \<noteq> quoteByte" and "c \<noteq> CHR ''-''" and "\<not> isDigit c"
  shows "null_Uint8_UnmarshalJSON b data =
           (Some (ErrInvalidType (UnmarshalTypeError
              (if c = CHR ''['' then ''array'' else if c = CHR ''{'' then ''object'' else ''bool''))), b)
         \<and> zero_Uint8_UnmarshalJSON b data =
           (Some (ErrInvalidType (UnmarshalTypeError
              (if c = CHR ''['' then ''array'' else if c = CHR ''{'' then ''object'' else ''bool''))), b)
         \<and> zero_Int16_UnmarshalJSON i data =
           (Some (ErrInvalidType (UnmarshalTypeError
              (if c = CHR ''['' then ''array'' else if c = CHR ''{'' then ''object'' else ''bool''))), i)"
proof -
  have sh: "c = CHR ''t'' \<or> c = CHR ''f'' \<or> c = CHR ''['' \<or> c = CHR ''{''"
    using checkValid_first_byte [OF assms(1,2)] assms(3-6) by blast
  have n: "data \<noteq> nullBytes"
    using assms(2) sh by (rule other_shape_not_null)
  note u = json_Unmarshal_uint8_other_shape [OF assms(1,2) sh, of "Byte b"]
  note s = json_Unmarshal_int16_other_shape [OF assms(1,2) sh, of "Int16 i"]
  have 1: "null_Uint8_UnmarshalJSON b data =
           (Some (ErrInvalidType (UnmarshalTypeError
              (if c = CHR ''['' then ''array'' else if c = CHR ''{'' then ''object'' else ''bool''))), b)"
    by (simp add: null_Uint8_UnmarshalJSON_def n u)
  have 2: "zero_Uint8_UnmarshalJSON b data =
           (Some (ErrInvalidType (UnmarshalTypeError
              (if c = CHR ''['' then ''array'' else if c = CHR ''{'' then ''object'' else ''bool''))), b)"
    by (simp add: zero_Uint8_UnmarshalJSON_def n u)
  have 3: "zero_Int16_UnmarshalJSON i data =
           (Some (ErrInvalidType (UnmarshalTypeError
              (if c = CHR ''['' then ''array'' else if c = CHR ''{'' then ''object'' else ''bool''))), i)"
    by (simp add: zero_Int16_UnmarshalJSON_def n s)
  from 1 2 3 show ?thesis
    by (intro conjI)
qed

text \<open>
  Claim C8 at the boolean token \<open>true\<close>, at the array \<open>[1, 2]\<close> and at the empty object
  after a leading space, decoded into valid wrappers holding 7.
\<close>

theorem C8_unmarshal_json_invalid_type_witness:
  "null_Uint8_UnmarshalJSON \<lparr>Byte = 7, Valid = True\<rparr> ''true''
     = (Some (ErrInvalidType (UnmarshalTypeError ''bool'')), \<lparr>Byte = 7, Valid = True\<rparr>)
   \<and> zero_Uint8_UnmarshalJSON \<lparr>Byte = 7, Valid = True\<rparr> ''true''
     = (Some (ErrInvalidType (UnmarshalTypeError ''bool'')), \<lparr>Byte = 7, Valid = True\<rparr>)
   \<and> zero_Int16_UnmarshalJSON \<lparr>Int16 = 7, Valid = True\<rparr> ''true''
     = (Some (ErrInvalidType (UnmarshalTypeError ''bool'')), \<lparr>Int16 = 7, Valid = True\<rparr>)
   \<and> zero_Uint8_UnmarshalJSON \<lparr>Byte = 7, Valid = True\<rparr> ''[1, 2]''
     = (Some (ErrInvalidType (UnmarshalTypeError ''array'')), \<lparr>Byte = 7, Valid = True\<rparr>)
   \<and> zero_Int16_UnmarshalJSON \<lparr>Int16 = 7, Valid = True\<rparr> '' {}''
     = (Some (ErrInvalidType (UnmarshalTypeError ''object'')), \<lparr>Int16 = 7, Valid = True\<rparr>)"
proof -
  have v1: "checkValid ''true''"
    by (simp add: scanner_defs)
  have d1: "dropWhile isSpace ''true'' = CHR ''t'' # ''rue''"
    by (simp add: isSpace_def)
  have v2: "checkValid ''[1, 2]''"
    by (simp add: scanner_defs)
  have d2: "dropWhile isSpace ''[1, 2]'' = CHR ''['' # ''1, 2]''"
    by (simp add: isSpace_def)
  have v3: "checkValid '' {}''"
    by (simp add: scanner_defs)
  have d3: "dropWhile isSpace '' {}'' = CHR ''{'' # ''}''"
    by (simp add: isSpace_def)
  have g: "\<not> isDigit (CHR ''t'')" "\<not> isDigit (CHR ''['')" "\<not> isDigit (CHR ''{'')"
    by (simp_all add: isDigit_def)
  note t = C8_unmarshal_json_invalid_type
    [OF v1 d1 _ _ _ g(1), of "\<lparr>Byte = 7, Valid = True\<rparr>" "\<lparr>Int16 = 7, Valid = True\<rparr>"]
  note a = C8_unmarshal_json_invalid_type
    [OF v2 d2 _ _ _ g(2), of "\<lparr>Byte = 7, Valid = True\<rparr>" "\<lparr>Int16 = 7, Valid = True\<rparr>"]
  note ob = C8_unmarshal_json_invalid_type
    [OF v3 d3 _ _ _ g(3), of "\<lparr>Byte = 7, Valid = True\<rparr>" "\<lparr>Int16 = 7, Valid = True\<rparr>"]
  show ?thesis
    using t a ob by simp
qed

section \<open>Parsing what the formatter prints\<close>

lemma of_char_digitChar: "d < 10 \<Longrightarrow> (of_char (digitChar d) :: nat) = 48 + d"
  by (simp add: digitChar_def)

lemma isDigit_digitChar: "d < 10 \<Longrightarrow> isDigit (digitChar d)"
  by (simp add: isDigit_def of_char_digitChar)

lemma parseUintLoop_append:
  "parseUintLoop M a (xs @ ys) =
     (case parseUintLoop M a xs of (n, None) \<Rightarrow> parseUintLoop M n ys | (n, Some e) \<Rightarrow> (n, Some e))"
  by (induction xs arbitrary: a) (simp_all add: Let_def)

lemma parseUintLoop_digit:
  assumes "d < 10"
  shows "parseUintLoop M n [digitChar d] =
     (if n \<ge> cutoff10 then (M, Some ErrRange)
      else if (n * 10 mod 2 ^ 64 + d) mod 2 ^ 64 < n * 10 mod 2 ^ 64 \<or> (n * 10 mod 2 ^ 64 + d) mod 2 ^ 64 > M
        then (M, Some ErrRange)
        else ((n * 10 mod 2 ^ 64 + d) mod 2 ^ 64, None))"
  using assms by (simp add: isDigit_digitChar of_char_digitChar Let_def)

lemma cutoff10_val: "cutoff10 = 1844674407370955162"
  by (simp add: cutoff10_def)

lemma parse_format:
  "n \<le> M \<Longrightarrow> M < 2 ^ 64 \<Longrightarrow> parseUintLoop M 0 (formatBits n) = (n, None)"
proof (induction n rule: formatBits.induct)
  case (1 n)
  show ?case
  proof (cases "n < 10")
    case True
    with 1 show ?thesis
      by (subst formatBits.simps) (simp add: parseUintLoop_digit cutoff10_val del: parseUintLoop.simps)
  next
    case False
    have d: "n mod 10 < 10" by simp
    have q: "n div 10 \<le> M" using "1.prems" by linarith
    have pre: "parseUintLoop M 0 (formatBits (n div 10)) = (n div 10, None)"
      using "1.IH" False q "1.prems" by simp
    have lt: "n < 18446744073709551616" using "1.prems" by simp
    have c: "\<not> n div 10 \<ge> cutoff10" using lt by (simp add: cutoff10_val)
    have e: "n div 10 * 10 + n mod 10 = n" by simp
    have m1: "n div 10 * 10 mod 2 ^ 64 = n div 10 * 10" using lt by simp
    have m2: "(n div 10 * 10 + n mod 10) mod 2 ^ 64 = n" using lt by simp
    show ?thesis
      using False "1.prems"
      by (subst formatBits.simps)
        (simp add: parseUintLoop_append pre parseUintLoop_digit [OF d] c m1 m2
          del: div_mult_mod_eq parseUintLoop.simps)
  qed
qed


lemma parse_format_overflow:
  "M < n \<Longrightarrow> M < 2 ^ 64 \<Longrightarrow> parseUintLoop M 0 (formatBits n) = (M, Some ErrRange)"
proof (induction n rule: formatBits.induct)
  case (1 n)
  show ?case
  proof (cases "n < 10")
    case True
    with 1 show ?thesis
      by (subst formatBits.simps) (simp add: parseUintLoop_digit cutoff10_val del: parseUintLoop.simps)
  next
    case False
    have d: "n mod 10 < 10" by simp
    show ?thesis
    proof (cases "M < n div 10")
      case True
      have pre: "parseUintLoop M 0 (formatBits (n div 10)) = (M, Some ErrRange)"
        using "1.IH" False True "1.prems" by simp
      show ?thesis
        using False by (subst formatBits.simps) (simp add: parseUintLoop_append pre)
    next
      case q: False
      have pre: "parseUintLoop M 0 (formatBits (n div 10)) = (n div 10, None)"
        using q "1.prems" by (simp add: parse_format)
      have step: "parseUintLoop M (n div 10) [digitChar (n mod 10)] = (M, Some ErrRange)"
      proof (cases "n div 10 \<ge> cutoff10")
        case True
        then show ?thesis by (simp add: parseUintLoop_digit [OF d] del: parseUintLoop.simps)
      next
        case c: False
        have m1: "n div 10 * 10 mod 2 ^ 64 = n div 10 * 10"
          using c by (simp add: cutoff10_val)
        have e: "n div 10 * 10 + n mod 10 = n" by simp
        have bad: "(n div 10 * 10 + n mod 10) mod 2 ^ 64 < n div 10 * 10
                   \<or> M < (n div 10 * 10 + n mod 10) mod 2 ^ 64"
        proof (cases "n < 2 ^ 64")
          case True
          then have "(n div 10 * 10 + n mod 10) mod 2 ^ 64 = n"
            unfolding e by simp
          with "1.prems" show ?thesis by simp
        next
          case big: False
          have "n < 2 * 2 ^ 64" using c by (simp add: cutoff10_val)
          with big have "n mod 2 ^ 64 = n - 2 ^ 64"
            by (simp add: mod_if not_less)
          moreover have "n - 2 ^ 64 < n div 10 * 10"
            using big by (simp add: not_less)
          ultimately show ?thesis
            unfolding e by simp
        qed
        have bad': "(n div 10 * 10 mod 2 ^ 64 + n mod 10) mod 2 ^ 64 < n div 10 * 10 mod 2 ^ 64
                   \<or> M < (n div 10 * 10 mod 2 ^ 64 + n mod 10) mod 2 ^ 64"
          unfolding m1 by (rule bad)
        show ?thesis
          by (simp only: parseUintLoop_digit [OF d] c bad' if_True if_False)
      qed
      show ?thesis
        using False by (subst formatBits.simps) (simp add: parseUintLoop_append pre step del: parseUintLoop.simps)
    qed
  qed
qed

lemma formatBits_cons: "\<exists>c cs. formatBits n = c # cs \<and> isDigit c"
proof (induction n rule: formatBits.induct)
  case (1 n)
  show ?case
  proof (cases "n < 10")
    case True
    then show ?thesis
      by (subst formatBits.simps) (simp add: isDigit_digitChar)
  next
    case False
    with 1 obtain c cs where "formatBits (n div 10) = c # cs" and "isDigit c"
      by blast
    with False show ?thesis
      by (subst formatBits.simps) simp
  qed
qed

lemma pow_le_64: "bits \<le> 64 \<Longrightarrow> (2 :: nat) ^ bits - 1 < 2 ^ 64"
proof -
  assume "bits \<le> 64"
  then have "(2 :: nat) ^ bits \<le> 2 ^ 64"
    by (rule power_increasing) simp
  moreover have "(0 :: nat) < 2 ^ bits"
    by simp
  ultimately show ?thesis
    by linarith
qed

lemma ParseUint_formatBits:
  assumes "n < 2 ^ bits" and "bits \<le> 64"
  shows "strconv_ParseUint (formatBits n) bits = (n, None)"
proof -
  obtain c cs where "formatBits n = c # cs"
    using formatBits_cons by blast
  then have ne: "formatBits n \<noteq> []"
    by simp
  have "n \<le> 2 ^ bits - 1"
    using assms(1) by simp
  then have "parseUintLoop (2 ^ bits - 1) 0 (formatBits n) = (n, None)"
    using pow_le_64 [OF assms(2)] by (rule parse_format)
  with ne show ?thesis
    by (simp add: strconv_ParseUint_def)
qed

lemma ParseUint_formatBits_overflow:
  assumes "2 ^ bits \<le> n" and "bits \<le> 64"
  shows "strconv_ParseUint (formatBits n) bits = (2 ^ bits - 1, Some ErrRange)"
proof -
  obtain c cs where "formatBits n = c # cs"
    using formatBits_cons by blast
  then have ne: "formatBits n \<noteq> []"
    by simp
  have "(0 :: nat) < 2 ^ bits"
    by simp
  then have "2 ^ bits - 1 < n"
    using assms(1) by linarith
  then have "parseUintLoop (2 ^ bits - 1) 0 (formatBits n) = (2 ^ bits - 1, Some ErrRange)"
    using pow_le_64 [OF assms(2)] by (rule parse_format_overflow)
  with ne show ?thesis
    by (simp add: strconv_ParseUint_def)
qed

lemma ParseInt_FormatInt:
  assumes "- (2 ^ 63) \<le> k" and "k < 2 ^ 63"
  shows "strconv_ParseInt (strconv_FormatInt k) 64 = (k, None)"
proof (cases "k < 0")
  case True
  have b: "nat (- k) < 2 ^ 64"
    using assms(1) by simp
  have u: "strconv_ParseUint (formatBits (nat (- k))) 64 = (nat (- k), None)"
    using b by (rule ParseUint_formatBits) simp
  have le: "\<not> nat (- k) > 2 ^ 63"
    using assms(1) by simp
  show ?thesis
    using True le by (simp add: strconv_ParseInt_def strconv_FormatInt_def u)
next
  case False
  obtain c cs where f: "formatBits (nat k) = c # cs" and dg: "isDigit c"
    using formatBits_cons by blast
  have sign: "c \<noteq> CHR ''+''" "c \<noteq> CHR ''-''"
    using dg by (auto simp: isDigit_def)
  have b: "nat k < 2 ^ 64"
    using assms(2) by simp
  have u: "strconv_ParseUint (c # cs) 64 = (nat k, None)"
    using ParseUint_formatBits [OF b] f by simp
  have lt: "\<not> nat k \<ge> 2 ^ 63"
    using assms(2) False by simp
  show ?thesis
    using False lt sign by (simp add: strconv_ParseInt_def strconv_FormatInt_def f u)
qed

lemma FormatInt_not_null: "strconv_FormatInt k \<noteq> [] \<and> strconv_FormatInt k \<noteq> ''null''"
proof -
  obtain c cs where f: "formatBits (nat k) = c # cs" and dg: "isDigit c"
    using formatBits_cons by blast
  have "c \<noteq> CHR ''n''"
    using dg by (auto simp: isDigit_def)
  with f show ?thesis
    by (simp add: strconv_FormatInt_def)
qed

lemma zero_Int16_UnmarshalText_parsed:
  assumes "strconv_ParseInt text 64 = (n, None)"
  shows "zero_Int16_UnmarshalText i text
           = (None, i\<lparr>Int16 := of_int n, NullInt16.Valid := ((of_int n :: int16) \<noteq> 0)\<rparr>)"
proof -
  have "text \<noteq> []"
    using assms by (auto simp: strconv_ParseInt_def)
  moreover have "text \<noteq> ''null''"
    using assms by (auto simp: strconv_ParseInt_def strconv_ParseUint_def isDigit_def)
  ultimately show ?thesis
    using assms by (simp add: zero_Int16_UnmarshalText_def)
qed

text \<open>
  Claim C7: \<open>UnmarshalText\<close> of package zero's \<open>Int16\<close> parses at 64 bits and narrows
  without a check: whenever the 64-bit parse of the text succeeds with \<open>n\<close>, the decoder
  returns no error and stores \<open>n\<close> cut to 16 bits; in particular the decimal text of every
  \<open>k\<close> in the int64 range, inside the int16 range or not, is accepted and the stored bits are
  \<open>k mod 2 ^ 16\<close>. The two \<open>Uint8\<close> decoders parse at 8 bits with the overflow check: the
  decimal text of every \<open>m\<close> from 256 on (such as "300") gives a range error and the wrapper
  is not changed.
\<close>

theorem C7_unmarshal_text_overflow_by_width:
  "(strconv_ParseInt text 64 = (n, None) \<longrightarrow>
      zero_Int16_UnmarshalText i text
        = (None, i\<lparr>Int16 := of_int n, NullInt16.Valid := ((of_int n :: int16) \<noteq> 0)\<rparr>))
   \<and> (- (2 ^ 63) \<le> k \<and> k < 2 ^ 63 \<longrightarrow>
      fst (zero_Int16_UnmarshalText i (strconv_FormatInt k)) = None
      \<and> uint (Int16 (snd (zero_Int16_UnmarshalText i (strconv_FormatInt k)))) = k mod 2 ^ 16
      \<and> NullInt16.Valid (snd (zero_Int16_UnmarshalText i (strconv_FormatInt k))) = (k mod 2 ^ 16 \<noteq> 0))
   \<and> (256 \<le> m \<longrightarrow>
      null_Uint8_UnmarshalText b (strconv_FormatInt (int m)) = (Some (ErrUnmarshalText ErrRange), b)
      \<and> zero_Uint8_UnmarshalText b (strconv_FormatInt (int m)) = (Some (ErrUnmarshalText ErrRange), b))"
proof (intro conjI impI)
  assume "strconv_ParseInt text 64 = (n, None)"
  then show "zero_Int16_UnmarshalText i text
        = (None, i\<lparr>Int16 := of_int n, NullInt16.Valid := ((of_int n :: int16) \<noteq> 0)\<rparr>)"
    by (rule zero_Int16_UnmarshalText_parsed)
next
  assume r: "- (2 ^ 63) \<le> k \<and> k < 2 ^ 63"
  then have p: "strconv_ParseInt (strconv_FormatInt k) 64 = (k, None)"
    by (simp add: ParseInt_FormatInt)
  note d = zero_Int16_UnmarshalText_parsed [OF p, of i]
  have z: "((word_of_int k :: int16) \<noteq> 0) = (k mod 2 ^ 16 \<noteq> 0)"
    by (simp add: word_of_int_eq_0_iff mod_eq_0_iff_dvd)
  show "fst (zero_Int16_UnmarshalText i (strconv_FormatInt k)) = None"
    by (simp add: d)
  show "uint (Int16 (snd (zero_Int16_UnmarshalText i (strconv_FormatInt k)))) = k mod 2 ^ 16"
    by (simp add: d uint_word_of_int take_bit_eq_mod)
  show "NullInt16.Valid (snd (zero_Int16_UnmarshalText i (strconv_FormatInt k))) = (k mod 2 ^ 16 \<noteq> 0)"
    using z by (simp add: d)
next
  assume m: "256 \<le> m"
  have f: "strconv_FormatInt (int m) = formatBits m"
    by (simp add: strconv_FormatInt_def)
  have nn: "formatBits m \<noteq> [] \<and> formatBits m \<noteq> ''null''"
    using FormatInt_not_null [of "int m"] by (simp add: f)
  have p: "strconv_ParseUint (formatBits m) 8 = (2 ^ 8 - 1, Some ErrRange)"
    using m by (intro ParseUint_formatBits_overflow) simp_all
  show "null_Uint8_UnmarshalText b (strconv_FormatInt (int m)) = (Some (ErrUnmarshalText ErrRange), b)"
    using nn by (simp add: f null_Uint8_UnmarshalText_def p)
  show "zero_Uint8_UnmarshalText b (strconv_FormatInt (int m)) = (Some (ErrUnmarshalText ErrRange), b)"
    using nn by (simp add: f zero_Uint8_UnmarshalText_def p)
qed

text \<open>
  Claim C7 at the number 40000, which is outside the int16 range: the \<open>Int16\<close> decoder
  accepts its decimal text, with or without a plus sign, and stores -25536, whose bits are
  \<open>40000 mod 2 ^ 16\<close>; at "65536", which it stores as an invalid 0; and at "300", which both
  \<open>Uint8\<close> decoders refuse.
\<close>

theorem C7_unmarshal_text_overflow_by_width_witness:
  "zero_Int16_UnmarshalText \<lparr>Int16 = 7, Valid = True\<rparr> ''+40000''
     = (None, \<lparr>Int16 = - 25536, Valid = True\<rparr>)
   \<and> zero_Int16_UnmarshalText \<lparr>Int16 = 7, Valid = True\<rparr> ''65536''
     = (None, \<lparr>Int16 = 0, Valid = False\<rparr>)
   \<and> - (2 ^ 63) \<le> (40000 :: int) \<and> (40000 :: int) < 2 ^ 63
   \<and> fst (zero_Int16_UnmarshalText \<lparr>Int16 = 7, Valid = True\<rparr> ''40000'') = None
   \<and> uint (Int16 (snd (zero_Int16_UnmarshalText \<lparr>Int16 = 7, Valid = True\<rparr> ''40000''))) = 40000
   \<and> NullInt16.Valid (snd (zero_Int16_UnmarshalText \<lparr>Int16 = 7, Valid = True\<rparr> ''40000''))
   \<and> null_Uint8_UnmarshalText \<lparr>Byte = 7, Valid = True\<rparr> ''300''
     = (Some (ErrUnmarshalText ErrRange), \<lparr>Byte = 7, Valid = True\<rparr>)
   \<and> zero_Uint8_UnmarshalText \<lparr>Byte = 7, Valid = True\<rparr> ''300''
     = (Some (ErrUnmarshalText ErrRange), \<lparr>Byte = 7, Valid = True\<rparr>)"
proof -
  have p1: "strconv_ParseInt ''+40000'' 64 = (40000, None)"
    by (simp add: parse_defs)
  have p3: "strconv_ParseInt ''65536'' 64 = (65536, None)"
    by (simp add: parse_defs)
  have f: "strconv_FormatInt (int 300) = ''300''"
    by (simp add: format_defs)
  have g: "strconv_FormatInt 40000 = ''40000''"
    by (simp add: format_defs)
  have w1: "(40000 :: int16) = - 25536" and w2: "(65536 :: int16) = 0"
    by simp_all
  have k: "- (2 ^ 63) \<le> (40000 :: int) \<and> (40000 :: int) < 2 ^ 63"
    by simp
  note a = C7_unmarshal_text_overflow_by_width
    [of "''+40000''" 40000 "\<lparr>Int16 = 7, Valid = True\<rparr>" 40000 300 "\<lparr>Byte = 7, Valid = True\<rparr>"]
  note c = C7_unmarshal_text_overflow_by_width
    [of "''65536''" 65536 "\<lparr>Int16 = 7, Valid = True\<rparr>" 40000 300 "\<lparr>Byte = 7, Valid = True\<rparr>"]
  have r1: "zero_Int16_UnmarshalText \<lparr>Int16 = 7, Valid = True\<rparr> ''+40000''
     = (None, \<lparr>Int16 = - 25536, Valid = True\<rparr>)"
    using a p1 by (simp add: w1)
  have r3: "zero_Int16_UnmarshalText \<lparr>Int16 = 7, Valid = True\<rparr> ''65536''
     = (None, \<lparr>Int16 = 0, Valid = False\<rparr>)"
    using c p3 by (simp add: w2)
  have r2: "fst (zero_Int16_UnmarshalText \<lparr>Int16 = 7, Valid = True\<rparr> ''40000'') = None
     \<and> uint (Int16 (snd (zero_Int16_UnmarshalText \<lparr>Int16 = 7, Valid = True\<rparr> ''40000''))) = 40000
     \<and> NullInt16.Valid (snd (zero_Int16_UnmarshalText \<lparr>Int16 = 7, Valid = True\<rparr> ''40000''))"
    using a k by (simp add: g)
  have r4: "null_Uint8_UnmarshalText \<lparr>Byte = 7, Valid = True\<rparr> ''300''
     = (Some (ErrUnmarshalText ErrRange), \<lparr>Byte = 7, Valid = True\<rparr>)"
    using a f by simp
  have r5: "zero_Uint8_UnmarshalText \<lparr>Byte = 7, Valid = True\<rparr> ''300''
     = (Some (ErrUnmarshalText ErrRange), \<lparr>Byte = 7, Valid = True\<rparr>)"
    using a f by simp
  show ?thesis
    using r1 r2 r3 r4 r5 k by simp
qed

end
